theory Spec2Isabelle
  imports Complex_Main "HOL-Library.AList"
begin

text \<open>
  A model of \<^verbatim>\<open>src/types.ts\<close> of the Starknet plugin for Hardhat: the status poller
  (\<^verbatim>\<open>checkStatus\<close>, \<^verbatim>\<open>isTxAccepted\<close>, \<^verbatim>\<open>isTxRejected\<close>,
  \<^verbatim>\<open>iterativelyCheckStatus\<close>), the readers of the client's output, \<^verbatim>\<open>readAbi\<close>, and
  the classes \<^verbatim>\<open>StarknetContractFactory\<close> and \<^verbatim>\<open>StarknetContract\<close>. Exceptions are
  values of a sum type, the calls to the external client are recorded in a list that every
  function passes on, and a promise is observed in one of its three states.
\<close>

section \<open>JavaScript values\<close>

text \<open>
  The plugin is TypeScript: the values it receives from \<^verbatim>\<open>JSON.parse\<close> and from its callers
  are untyped at run time, and the code tests them for truthiness. A value is one of the
  JavaScript primitives, an array or a plain object. An object lists each property once,
  in property order. Strings are lists of characters; a number is a finite number (no NaN:
  \<^verbatim>\<open>JSON.parse\<close> yields none).
\<close>

datatype jsval =
    JUndefined
  | JNull
  | JBool bool
  | JNum rat
  | JBigInt int
  | JStr string
  | JArr "jsval list"
  | JObj "(string \<times> jsval) list"

text \<open>ToBoolean, the test behind \<^verbatim>\<open>if (v)\<close>, \<^verbatim>\<open>!v\<close>, \<^verbatim>\<open>a && b\<close> and \<^verbatim>\<open>a || b\<close>.\<close>

fun truthy :: "jsval \<Rightarrow> bool" where
  "truthy JUndefined = False"
| "truthy JNull = False"
| "truthy (JBool b) = b"
| "truthy (JNum x) = (x \<noteq> 0)"
| "truthy (JBigInt n) = (n \<noteq> 0)"
| "truthy (JStr s) = (s \<noteq> [])"
| "truthy (JArr xs) = True"
| "truthy (JObj fs) = True"

text \<open>
  What the code throws. \<open>HardhatPluginError m\<close> is
  \<^verbatim>\<open>new HardhatPluginError(PLUGIN_NAME, m)\<close>, \<open>Error m\<close> is \<^verbatim>\<open>new Error(m)\<close>, and
  \<open>TypeError\<close> is what the runtime throws when a property of \<^verbatim>\<open>undefined\<close> or
  \<^verbatim>\<open>null\<close> is read.
\<close>

datatype error =
    HardhatPluginError string
  | Error string
  | TypeError

text \<open>
  \<^verbatim>\<open>v.k\<close> for the property names this file reads from parsed JSON (\<^verbatim>\<open>tx_status\<close>,
  \<^verbatim>\<open>block_hash\<close>): no built-in prototype defines them, so a value that is not an object
  with that property gives \<^verbatim>\<open>undefined\<close>, and \<^verbatim>\<open>undefined\<close> and \<^verbatim>\<open>null\<close> throw.
\<close>

definition field :: "(string \<times> jsval) list \<Rightarrow> string \<Rightarrow> jsval" where
  "field fs k = (case map_of fs k of None \<Rightarrow> JUndefined | Some v \<Rightarrow> v)"

fun get_prop :: "jsval \<Rightarrow> string \<Rightarrow> error + jsval" where
  "get_prop JUndefined k = Inl TypeError"
| "get_prop JNull k = Inl TypeError"
| "get_prop (JObj fs) k = Inr (field fs k)"
| "get_prop v k = Inr JUndefined"

text \<open>\<^verbatim>\<open>xs.includes(v)\<close> on an array of strings: SameValueZero finds only an equal string.\<close>

fun Array_includes :: "string list \<Rightarrow> jsval \<Rightarrow> bool" where
  "Array_includes xs (JStr s) = (s \<in> set xs)"
| "Array_includes xs v = False"

fun Array_isArray :: "jsval \<Rightarrow> bool" where
  "Array_isArray (JArr xs) = True"
| "Array_isArray v = False"

text \<open>Decimal digits of a natural number, as \<^verbatim>\<open>toString\<close> prints an index or an integer.\<close>

fun show_nat :: "nat \<Rightarrow> string" where
  "show_nat n = (if n < 10 then [char_of (48 + n)]
                 else show_nat (n div 10) @ [char_of (48 + n mod 10)])"

declare show_nat.simps [simp del]

text \<open>
  \<^verbatim>\<open>Object.keys(v)\<close>: the property names of an object, the indices of an array or of a
  string, nothing for the other primitives; \<^verbatim>\<open>undefined\<close> and \<^verbatim>\<open>null\<close> throw.
\<close>

fun Object_keys :: "jsval \<Rightarrow> error + string list" where
  "Object_keys JUndefined = Inl TypeError"
| "Object_keys JNull = Inl TypeError"
| "Object_keys (JObj fs) = Inr (map fst fs)"
| "Object_keys (JArr xs) = Inr (map show_nat [0..<length xs])"
| "Object_keys (JStr s) = Inr (map show_nat [0..<length s])"
| "Object_keys v = Inr []"

text \<open>
  The condition \<^verbatim>\<open>v && Object.keys(v).length\<close> (types.ts lines 263 and 332), whose
  negation \<^verbatim>\<open>!v || Object.keys(v).length === 0\<close> is the test of line 253. \<^verbatim>\<open>&&\<close>
  evaluates \<^verbatim>\<open>Object.keys\<close> only for a truthy value.
\<close>

definition has_keys :: "jsval \<Rightarrow> error + bool" where
  "has_keys v =
     (if truthy v
      then (case Object_keys v of Inl e \<Rightarrow> Inl e | Inr ks \<Rightarrow> Inr (length ks \<noteq> 0))
      else Inr False)"

section \<open>The external process collaborator\<close>

text \<open>
  \<^verbatim>\<open>StarknetWrapper.runCommand(command, args, paths)\<close> runs the Starknet client and
  resolves to its exit status and streams, or rejects. The client is outside the plugin:
  the wrapper is modelled by the answer it gives to a call, which may depend on every
  call made before. The state of the world is the list of the calls made so far, so that
  a function that makes no call returns the list it was given.
\<close>

record ProcessResult =
  statusCode :: int
  stdout :: string
  stderr :: string

type_synonym command = "string \<times> string list \<times> string list"

type_synonym StarknetWrapper = "command list \<Rightarrow> error + ProcessResult"

definition runCommand ::
  "StarknetWrapper \<Rightarrow> command \<Rightarrow> command list \<Rightarrow> (error + ProcessResult) \<times> command list" where
  "runCommand starknetWrapper c calls = (starknetWrapper (calls @ [c]), calls @ [c])"

section \<open>Parts of the plugin outside types.ts\<close>

text \<open>
  The functions and the constant that types.ts imports from \<^verbatim>\<open>./utils\<close>, \<^verbatim>\<open>./adapt\<close>
  and \<^verbatim>\<open>./constants\<close>, and the built-ins that read outside the program, are parameters
  of the model:
  \<^item> \<open>JSON_parse\<close>: \<^verbatim>\<open>JSON.parse\<close> on the status query's output, \<open>None\<close> when it throws;
  \<^item> \<open>abi_file\<close>: \<^verbatim>\<open>JSON.parse(fs.readFileSync(abiPath).toString())\<close>, the array of ABI
    entries stored at a path, or the error thrown by the read or the parse;
  \<^item> \<open>adaptInput\<close> and \<open>adaptOutput\<close>: the ABI encoder and decoder, which may throw;
  \<^item> \<open>adaptUrl\<close> and \<open>adaptLog\<close>: the URL and log rewriters;
  \<^item> \<open>CHECK_STATUS_TIMEOUT\<close>: the delay between two status queries, in milliseconds.
\<close>

record AbiEntry =
  name :: "string option"
  type :: string
  inputs :: "(string \<times> string) list"
  outputs :: "(string \<times> string) list"

type_synonym Abi = "(string \<times> AbiEntry) list"

record env =
  JSON_parse :: "string \<Rightarrow> jsval option"
  abi_file :: "string \<Rightarrow> error + AbiEntry list"
  adaptInput :: "string option \<Rightarrow> jsval \<Rightarrow> (string \<times> string) list \<Rightarrow> Abi \<Rightarrow> error + string list"
  adaptOutput :: "string \<Rightarrow> (string \<times> string) list \<Rightarrow> Abi \<Rightarrow> error + jsval"
  adaptUrl :: "string \<Rightarrow> string"
  adaptLog :: "string \<Rightarrow> string"
  CHECK_STATUS_TIMEOUT :: nat

section \<open>Transaction status polling\<close>

text \<open>
  \<^verbatim>\<open>checkStatus\<close> (lines 75-94): one status query, whose command line is
  \<open>tx_status_command\<close>. A rejected \<^verbatim>\<open>runCommand\<close>, a non-zero exit status and an output
  that \<^verbatim>\<open>JSON.parse\<close> refuses all throw.
\<close>

definition tx_status_command :: "env \<Rightarrow> string \<Rightarrow> string \<Rightarrow> string \<Rightarrow> command" where
  "tx_status_command E txHash gatewayUrl feederGatewayUrl =
     (''starknet'',
      [''tx_status'',
       ''--hash'', txHash,
       ''--gateway_url'', adaptUrl E gatewayUrl,
       ''--feeder_gateway_url'', adaptUrl E feederGatewayUrl],
      [])"

definition checkStatus ::
  "env \<Rightarrow> string \<Rightarrow> StarknetWrapper \<Rightarrow> string \<Rightarrow> string \<Rightarrow> command list
     \<Rightarrow> (error + jsval) \<times> command list" where
  "checkStatus E txHash starknetWrapper gatewayUrl feederGatewayUrl calls =
     (case runCommand starknetWrapper
             (tx_status_command E txHash gatewayUrl feederGatewayUrl) calls of
        (Inl e, calls') \<Rightarrow> (Inl e, calls')
      | (Inr executed, calls') \<Rightarrow>
          if statusCode executed \<noteq> 0
          then (Inl (HardhatPluginError (stderr executed)), calls')
          else (case JSON_parse E (stdout executed) of
                  None \<Rightarrow>
                    (Inl (HardhatPluginError
                       (''Cannot interpret the following: '' @ stdout executed)), calls')
                | Some responseParsed \<Rightarrow> (Inr responseParsed, calls')))"

definition ACCEPTABLE_STATUSES :: "string list" where
  "ACCEPTABLE_STATUSES = [''PENDING'', ''ACCEPTED_ONCHAIN'']"

text \<open>
  \<^verbatim>\<open>isTxAccepted\<close> (lines 97-101) returns the value of its \<^verbatim>\<open>&&\<close> chain: the first
  falsy operand, or the last operand. Its caller tests the value for truthiness.
\<close>

definition isTxAccepted :: "jsval \<Rightarrow> error + jsval" where
  "isTxAccepted statusObject =
     (case get_prop statusObject ''tx_status'' of
        Inl e \<Rightarrow> Inl e
      | Inr tx_status \<Rightarrow>
          if \<not> Array_includes ACCEPTABLE_STATUSES tx_status then Inr (JBool False)
          else (case get_prop statusObject ''block_hash'' of
                  Inl e \<Rightarrow> Inl e
                | Inr block_hash \<Rightarrow>
                    if \<not> truthy block_hash then Inr block_hash
                    else Inr (JBool (block_hash \<noteq> JStr ''pending''))))"

definition UNACCEPTABLE_STATUSES :: "string list" where
  "UNACCEPTABLE_STATUSES = [''REJECTED'']"

definition isTxRejected :: "jsval \<Rightarrow> error + bool" where
  "isTxRejected statusObject =
     (case get_prop statusObject ''tx_status'' of
        Inl e \<Rightarrow> Inl e
      | Inr tx_status \<Rightarrow> Inr (Array_includes UNACCEPTABLE_STATUSES tx_status))"

text \<open>
  \<^verbatim>\<open>iterativelyCheckStatus\<close> (lines 108-127) is an async function. One call of it ends in
  one of four ways: it calls \<^verbatim>\<open>resolve\<close>, it calls \<^verbatim>\<open>reject\<close> with an error, it
  schedules a call of itself with the arguments it was given (\<^verbatim>\<open>setTimeout\<close> with the
  delay and \<^verbatim>\<open>...arguments\<close>), or an exception leaves it: then the promise that the
  call returned is rejected, and neither callback has been called. The arguments other
  than the two callbacks are the record \<open>arguments\<close>.
\<close>

record arguments =
  arg_txHash :: string
  arg_starknetWrapper :: StarknetWrapper
  arg_gatewayUrl :: string
  arg_feederGatewayUrl :: string

datatype action =
    CallResolve
  | CallReject error
  | SetTimeout nat arguments
  | Throw error

definition iterativelyCheckStatus ::
  "env \<Rightarrow> arguments \<Rightarrow> command list \<Rightarrow> action \<times> command list" where
  "iterativelyCheckStatus E a calls =
     (case checkStatus E (arg_txHash a) (arg_starknetWrapper a) (arg_gatewayUrl a)
             (arg_feederGatewayUrl a) calls of
        (Inl e, calls') \<Rightarrow> (Throw e, calls')
      | (Inr statusObject, calls') \<Rightarrow>
          (case isTxAccepted statusObject of
             Inl e \<Rightarrow> (Throw e, calls')
           | Inr accepted \<Rightarrow>
               if truthy accepted then (CallResolve, calls')
               else (case isTxRejected statusObject of
                       Inl e \<Rightarrow> (Throw e, calls')
                     | Inr rejected \<Rightarrow>
                         if rejected then (CallReject (Error ''Transaction rejected.''), calls')
                         else (SetTimeout (CHECK_STATUS_TIMEOUT E) a, calls'))))"

text \<open>
  The timers: \<open>run_timers E n a calls\<close> is the first call of \<^verbatim>\<open>iterativelyCheckStatus\<close>
  followed by the calls that at most \<open>n\<close> expired timers make. The result
  \<open>SetTimeout\<close> says that a further call is scheduled and has not run yet.
\<close>

fun run_timers :: "env \<Rightarrow> nat \<Rightarrow> arguments \<Rightarrow> command list \<Rightarrow> action \<times> command list" where
  "run_timers E 0 a calls = iterativelyCheckStatus E a calls"
| "run_timers E (Suc n) a calls =
     (case iterativelyCheckStatus E a calls of
        (SetTimeout t a', calls') \<Rightarrow> run_timers E n a' calls'
      | r \<Rightarrow> r)"

text \<open>
  The caller's wait is \<^verbatim>\<open>new Promise((resolve, reject) => { iterativelyCheckStatus(...,
  resolve, reject); })\<close> (lines 239-248 and 365-374). The executor drops the promise that
  \<^verbatim>\<open>iterativelyCheckStatus\<close> returns, and a call of an async function never throws into
  its caller: the new promise is settled by the two callbacks and by nothing else.
\<close>

datatype 'a promise = Pending | Fulfilled 'a | Rejected error

fun new_Promise :: "'a \<Rightarrow> action \<Rightarrow> 'a promise" where
  "new_Promise v CallResolve = Fulfilled v"
| "new_Promise v (CallReject e) = Rejected e"
| "new_Promise v (SetTimeout t a) = Pending"
| "new_Promise v (Throw e) = Pending"

section \<open>Reading the client's output\<close>

text \<open>
  The two regular expressions of lines 60 and 64 have the shape \<^verbatim>\<open>/^LIT(.*)$/m\<close> for a
  literal text \<^verbatim>\<open>LIT\<close>. With the flag \<^verbatim>\<open>m\<close>, \<^verbatim>\<open>^\<close> holds at the start of the input
  and after a line terminator, \<^verbatim>\<open>.\<close> is any character but a line terminator, and
  \<^verbatim>\<open>$\<close> holds at the end of the input and before a line terminator.
  \<^verbatim>\<open>response.match(regex)\<close> tries the start positions from left to right and stops at
  the first one that matches; the greedy \<^verbatim>\<open>(.*)\<close> then runs to the end of the line.
  \<open>regex_match lit bol s\<close> scans \<open>s\<close>, where \<open>bol\<close> says whether \<open>s\<close> starts a line, and
  returns the first capture group (\<^verbatim>\<open>matched[1]\<close>), or \<open>None\<close> where \<^verbatim>\<open>match\<close>
  returns \<^verbatim>\<open>null\<close>. Of the line terminators of JavaScript, line feed and carriage
  return are characters of the model.
\<close>

definition is_line_terminator :: "char \<Rightarrow> bool" where
  "is_line_terminator c = (c = CHR 0x0A \<or> c = CHR 0x0D)"

fun regex_match :: "string \<Rightarrow> bool \<Rightarrow> string \<Rightarrow> string option" where
  "regex_match lit bol [] = (if bol \<and> lit = [] then Some [] else None)"
| "regex_match lit bol (c # cs) =
     (if bol \<and> take (length lit) (c # cs) = lit
      then Some (takeWhile (\<lambda>x. \<not> is_line_terminator x) (drop (length lit) (c # cs)))
      else regex_match lit (is_line_terminator c) cs)"

definition could_not_parse :: string where
  "could_not_parse =
     ''Could not parse response. Check that you're using the correct network.''"

text \<open>
  \<^verbatim>\<open>extractFromResponse\<close> (lines 51-57), with the literal of the regular expression in
  place of the expression: no match and an empty capture both throw.
\<close>

definition extractFromResponse :: "string \<Rightarrow> string \<Rightarrow> error + string" where
  "extractFromResponse response lit =
     (case regex_match lit True response of
        None \<Rightarrow> Inl (HardhatPluginError could_not_parse)
      | Some matched1 \<Rightarrow>
          if matched1 = [] then Inl (HardhatPluginError could_not_parse) else Inr matched1)"

definition extractTxHash :: "string \<Rightarrow> error + string" where
  "extractTxHash response = extractFromResponse response ''Transaction hash: ''"

definition extractAddress :: "string \<Rightarrow> error + string" where
  "extractAddress response = extractFromResponse response ''Contract address: ''"

text \<open>
  The lines of a text, for stating what the expressions find: the text is cut at every
  line terminator. \<open>first_line lit s\<close> is the first line of \<open>s\<close> that starts with \<open>lit\<close>.
\<close>

fun js_lines :: "string \<Rightarrow> string list" where
  "js_lines [] = [[]]"
| "js_lines (c # cs) =
     (if is_line_terminator c then [] # js_lines cs
      else (case js_lines cs of
              [] \<Rightarrow> [[c]]
            | l # ls \<Rightarrow> (c # l) # ls))"

definition starts_with :: "string \<Rightarrow> string \<Rightarrow> bool" where
  "starts_with lit l = (take (length lit) l = lit)"

definition first_line :: "string \<Rightarrow> string \<Rightarrow> string option" where
  "first_line lit s = find (starts_with lit) (js_lines s)"

section \<open>The ABI index\<close>

text \<open>
  \<^verbatim>\<open>readAbi\<close> (lines 134-147). The index is an object used as a dictionary: an
  association list in property order, where writing an existing name replaces its entry
  in place and a new name is added last. The properties that every object inherits
  (\<^verbatim>\<open>toString\<close> and the like) are not entries of the model's index, and the model
  does not cover two names that an object treats apart: a name that reads as an array
  index, which an object enumerates before the others, and \<^verbatim>\<open>__proto__\<close>, whose
  assignment sets the prototype. An entry's
  \<^verbatim>\<open>name\<close> is a string or is missing; \<^verbatim>\<open>!abiEntry.name\<close> holds for a missing and
  for an empty name. The message interpolates the entry, which prints as
  \<^verbatim>\<open>[object Object]\<close>.
\<close>

fun readAbi_loop :: "AbiEntry list \<Rightarrow> Abi \<Rightarrow> error + Abi" where
  "readAbi_loop [] abi = Inr abi"
| "readAbi_loop (abiEntry # abiArray) abi =
     (case name abiEntry of
        None \<Rightarrow> Inl (HardhatPluginError ''Abi entry has no name: [object Object]'')
      | Some n \<Rightarrow>
          if n = [] then Inl (HardhatPluginError ''Abi entry has no name: [object Object]'')
          else readAbi_loop abiArray (AList.update n abiEntry abi))"

definition readAbi :: "env \<Rightarrow> string \<Rightarrow> error + Abi" where
  "readAbi E path =
     (case abi_file E path of
        Inl e \<Rightarrow> Inl e
      | Inr abiArray \<Rightarrow> readAbi_loop abiArray [])"

section \<open>Signatures\<close>

text \<open>
  A signature element is a \<^verbatim>\<open>number | bigint\<close>; the model takes the integers, which
  \<^verbatim>\<open>toString\<close> prints in decimal. A number with a fraction, and a number of
  \<^verbatim>\<open>1e21\<close> or more, which \<^verbatim>\<open>toString\<close> prints with an exponent, are not covered.
  \<^verbatim>\<open>handleSignature\<close> (lines 154-159) appends to the argument list it is given; an
  absent signature is \<open>None\<close>.
\<close>

type_synonym Numeric = int

definition Numeric_toString :: "Numeric \<Rightarrow> string" where
  "Numeric_toString i = (if i < 0 then ''-'' @ show_nat (nat (- i)) else show_nat (nat i))"

definition handleSignature :: "Numeric list option \<Rightarrow> string list \<Rightarrow> string list" where
  "handleSignature signature starknetArgs =
     (case signature of
        None \<Rightarrow> starknetArgs
      | Some parts \<Rightarrow> starknetArgs @ [''--signature''] @ map Numeric_toString parts)"

section \<open>Contract handles\<close>

text \<open>
  The configuration objects and the two classes (lines 30-39, 161-169 and 292-298).
  \<^verbatim>\<open>address\<close> is \<^verbatim>\<open>undefined\<close> (\<open>None\<close>) until it is assigned. The factory's index
  is the field \<open>factory_abi\<close>.
\<close>

record StarknetContractConfig =
  starknetWrapper :: StarknetWrapper
  abiPath :: string
  gatewayUrl :: string
  feederGatewayUrl :: string

record StarknetContractFactoryConfig = StarknetContractConfig +
  metadataPath :: string

record StarknetContract = StarknetContractConfig +
  abi :: Abi
  address :: "string option"

record StarknetContractFactory = StarknetContractFactoryConfig +
  factory_abi :: Abi
  constructorAbi :: "AbiEntry option"

text \<open>The constructor of \<^verbatim>\<open>StarknetContract\<close> (lines 300-306).\<close>

definition StarknetContract_new ::
  "env \<Rightarrow> StarknetContractConfig \<Rightarrow> error + StarknetContract" where
  "StarknetContract_new E config =
     (case readAbi E (abiPath config) of
        Inl e \<Rightarrow> Inl e
      | Inr a \<Rightarrow>
          Inr \<lparr>starknetWrapper = starknetWrapper config,
               abiPath = abiPath config,
               gatewayUrl = gatewayUrl config,
               feederGatewayUrl = feederGatewayUrl config,
               abi = a,
               address = None\<rparr>)"

text \<open>
  The constructor of \<^verbatim>\<open>StarknetContractFactory\<close> (lines 170-185): the loop over the
  index keeps the last entry whose type is \<^verbatim>\<open>constructor\<close>.
\<close>

definition find_constructor :: "Abi \<Rightarrow> AbiEntry option" where
  "find_constructor a =
     foldl (\<lambda>found (abiEntryName, abiEntry).
              if type abiEntry = ''constructor'' then Some abiEntry else found) None a"

definition StarknetContractFactory_new ::
  "env \<Rightarrow> StarknetContractFactoryConfig \<Rightarrow> error + StarknetContractFactory" where
  "StarknetContractFactory_new E config =
     (case readAbi E (abiPath config) of
        Inl e \<Rightarrow> Inl e
      | Inr a \<Rightarrow>
          Inr \<lparr>starknetWrapper = starknetWrapper config,
               abiPath = abiPath config,
               gatewayUrl = gatewayUrl config,
               feederGatewayUrl = feederGatewayUrl config,
               metadataPath = metadataPath config,
               factory_abi = a,
               constructorAbi = find_constructor a\<rparr>)"

text \<open>
  \<^verbatim>\<open>handleConstructorArguments\<close> (lines 251-269) returns the extended argument list or
  throws. The first \<^verbatim>\<open>if\<close> asks whether the ABI has a constructor entry; the second
  comes after it, on the list the first one has extended.
\<close>

definition handleConstructorArguments ::
  "env \<Rightarrow> StarknetContractFactory \<Rightarrow> jsval \<Rightarrow> string list \<Rightarrow> error + string list" where
  "handleConstructorArguments E this constructorArguments starknetArgs =
     (case
        (case constructorAbi this of
           Some c \<Rightarrow>
             (case has_keys constructorArguments of
                Inl e \<Rightarrow> Inl e
              | Inr given \<Rightarrow>
                  if \<not> given
                  then Inl (HardhatPluginError
                              ''Constructor arguments required but not provided.'')
                  else (case adaptInput E (name c) constructorArguments (inputs c)
                               (factory_abi this) of
                          Inl e \<Rightarrow> Inl e
                        | Inr construtorArguments \<Rightarrow>
                            Inr (starknetArgs @ [''--inputs''] @ construtorArguments)))
         | None \<Rightarrow> Inr starknetArgs) of
        Inl e \<Rightarrow> Inl e
      | Inr starknetArgs' \<Rightarrow>
          (case has_keys constructorArguments of
             Inl e \<Rightarrow> Inl e
           | Inr given \<Rightarrow>
               if given
               then (if constructorAbi this = None
                     then Inl (HardhatPluginError
                                 ''Constructor arguments provided but not required.'')
                     else Inr starknetArgs')
               else Inr starknetArgs'))"

text \<open>
  \<^verbatim>\<open>deploy\<close> (lines 211-249). It is an async function: what it throws rejects the
  promise it returns, and the promise it returns at the end is the caller's wait on the
  status polling, observed after at most \<open>n\<close> timers.
\<close>

definition deploy ::
  "env \<Rightarrow> nat \<Rightarrow> StarknetContractFactory \<Rightarrow> jsval \<Rightarrow> Numeric list option \<Rightarrow> command list
     \<Rightarrow> StarknetContract promise \<times> command list" where
  "deploy E n this constructorArguments signature calls =
     (case handleConstructorArguments E this constructorArguments
             [''deploy'',
              ''--contract'', metadataPath this,
              ''--gateway_url'', adaptUrl E (gatewayUrl this)] of
        Inl e \<Rightarrow> (Rejected e, calls)
      | Inr starknetArgs \<Rightarrow>
          (case runCommand (starknetWrapper this)
                  (''starknet'', handleSignature signature starknetArgs, [metadataPath this])
                  calls of
             (Inl e, calls') \<Rightarrow> (Rejected e, calls')
           | (Inr executed, calls') \<Rightarrow>
               if statusCode executed \<noteq> 0
               then (Rejected (HardhatPluginError
                       ''Could not deploy contract. Check the network url in config. Is it responsive?''),
                     calls')
               else (case extractAddress (stdout executed) of
                       Inl e \<Rightarrow> (Rejected e, calls')
                     | Inr address' \<Rightarrow>
                         (case extractTxHash (stdout executed) of
                            Inl e \<Rightarrow> (Rejected e, calls')
                          | Inr txHash \<Rightarrow>
                              (case StarknetContract_new E
                                      \<lparr>starknetWrapper = starknetWrapper this,
                                       abiPath = abiPath this,
                                       gatewayUrl = gatewayUrl this,
                                       feederGatewayUrl = feederGatewayUrl this\<rparr> of
                                 Inl e \<Rightarrow> (Rejected e, calls')
                               | Inr contract \<Rightarrow>
                                   (case run_timers E n
                                           \<lparr>arg_txHash = txHash,
                                            arg_starknetWrapper = starknetWrapper this,
                                            arg_gatewayUrl = gatewayUrl this,
                                            arg_feederGatewayUrl = feederGatewayUrl this\<rparr>
                                           calls' of
                                      (act, calls2) \<Rightarrow>
                                        (new_Promise (contract\<lparr>address := Some address'\<rparr>) act,
                                         calls2)))))))"

text \<open>\<^verbatim>\<open>getContractAt\<close> (lines 277-289).\<close>

definition getContractAt ::
  "env \<Rightarrow> StarknetContractFactory \<Rightarrow> string option \<Rightarrow> error + StarknetContract" where
  "getContractAt E this address' =
     (if address' = None \<or> address' = Some []
      then Inl (HardhatPluginError ''No address provided'')
      else (case StarknetContract_new E
                   \<lparr>starknetWrapper = starknetWrapper this,
                    abiPath = abiPath this,
                    gatewayUrl = gatewayUrl this,
                    feederGatewayUrl = feederGatewayUrl this\<rparr> of
              Inl e \<Rightarrow> Inl e
            | Inr contract \<Rightarrow> Inr (contract\<lparr>address := address'\<rparr>)))"

section \<open>Invoke and call\<close>

datatype Kind = Invoke | Call

fun kind_text :: "Kind \<Rightarrow> string" where
  "kind_text Invoke = ''invoke''"
| "kind_text Call = ''call''"

text \<open>
  \<^verbatim>\<open>invokeOrCall\<close> (lines 308-351). The checks come in the order of the source: the
  address, the function, the shape of the arguments. \<^verbatim>\<open>runCommand\<close> is called last.
  The function is looked up among the entries of the ABI; a name that the index inherits
  from \<^verbatim>\<open>Object.prototype\<close> (\<^verbatim>\<open>toString\<close> and the like) also passes the check of
  line 314 in the code, and is not covered by the model.
\<close>

definition invokeOrCall ::
  "env \<Rightarrow> StarknetContract \<Rightarrow> Kind \<Rightarrow> string \<Rightarrow> jsval \<Rightarrow> Numeric list option \<Rightarrow> command list
     \<Rightarrow> (error + ProcessResult) \<times> command list" where
  "invokeOrCall E this kind functionName args signature calls =
     (case address this of
        None \<Rightarrow> (Inl (HardhatPluginError ''Contract not deployed''), calls)
      | Some address' \<Rightarrow>
          if address' = [] then (Inl (HardhatPluginError ''Contract not deployed''), calls)
          else (case map_of (abi this) functionName of
                  None \<Rightarrow>
                    (Inl (HardhatPluginError
                       (''Function '' @ [CHR 0x27] @ functionName @ [CHR 0x27]
                          @ '' doesn't exist on this contract.'')), calls)
                | Some func \<Rightarrow>
                    if Array_isArray args
                    then (Inl (HardhatPluginError
                            ''Arguments should be passed in the form of an object.''), calls)
                    else (case
                            (case has_keys args of
                               Inl e \<Rightarrow> Inl e
                             | Inr given \<Rightarrow>
                                 if given
                                 then (case adaptInput E (Some functionName) args (inputs func)
                                              (abi this) of
                                         Inl e \<Rightarrow> Inl e
                                       | Inr adapted \<Rightarrow> Inr ([''--inputs''] @ adapted))
                                 else Inr []) of
                            Inl e \<Rightarrow> (Inl e, calls)
                          | Inr inputArgs \<Rightarrow>
                              (case runCommand (starknetWrapper this)
                                      (''starknet'',
                                       [kind_text kind,
                                        ''--address'', address',
                                        ''--abi'', abiPath this,
                                        ''--function'', functionName,
                                        ''--gateway_url'', adaptUrl E (gatewayUrl this),
                                        ''--feeder_gateway_url'', adaptUrl E (feederGatewayUrl this)]
                                       @ inputArgs
                                       @ (case signature of
                                            None \<Rightarrow> []
                                          | Some parts \<Rightarrow>
                                              [''--signature''] @ map Numeric_toString parts),
                                       [abiPath this])
                                      calls of
                                 (Inl e, calls') \<Rightarrow> (Inl e, calls')
                               | (Inr executed, calls') \<Rightarrow>
                                   if statusCode executed \<noteq> 0
                                   then (Inl (HardhatPluginError
                                           (adaptLog E
                                              (''Could not '' @ kind_text kind @ '' '' @ functionName
                                                 @ [CHR '':'', CHR 0x0A] @ stderr executed))),
                                         calls')
                                   else (Inr executed, calls')))))"

text \<open>
  \<^verbatim>\<open>invoke\<close> (lines 361-375): the promise it returns, observed after at most \<open>n\<close>
  timers of the status polling.
\<close>

definition invoke ::
  "env \<Rightarrow> nat \<Rightarrow> StarknetContract \<Rightarrow> string \<Rightarrow> jsval \<Rightarrow> Numeric list option \<Rightarrow> command list
     \<Rightarrow> unit promise \<times> command list" where
  "invoke E n this functionName args signature calls =
     (case invokeOrCall E this Invoke functionName args signature calls of
        (Inl e, calls') \<Rightarrow> (Rejected e, calls')
      | (Inr executed, calls') \<Rightarrow>
          (case extractTxHash (stdout executed) of
             Inl e \<Rightarrow> (Rejected e, calls')
           | Inr txHash \<Rightarrow>
               (case run_timers E n
                       \<lparr>arg_txHash = txHash,
                        arg_starknetWrapper = starknetWrapper this,
                        arg_gatewayUrl = gatewayUrl this,
                        arg_feederGatewayUrl = feederGatewayUrl this\<rparr>
                       calls' of
                  (act, calls2) \<Rightarrow> (new_Promise () act, calls2))))"

text \<open>
  \<^verbatim>\<open>call\<close> (lines 401-406). The function was found by \<^verbatim>\<open>invokeOrCall\<close>, so the second
  lookup finds it; a missing entry would throw at \<^verbatim>\<open>func.outputs\<close>.
\<close>

definition call ::
  "env \<Rightarrow> StarknetContract \<Rightarrow> string \<Rightarrow> jsval \<Rightarrow> Numeric list option \<Rightarrow> command list
     \<Rightarrow> jsval promise \<times> command list" where
  "call E this functionName args signature calls =
     (case invokeOrCall E this Call functionName args signature calls of
        (Inl e, calls') \<Rightarrow> (Rejected e, calls')
      | (Inr executed, calls') \<Rightarrow>
          (case map_of (abi this) functionName of
             None \<Rightarrow> (Rejected TypeError, calls')
           | Some func \<Rightarrow>
               (case adaptOutput E (stdout executed) (outputs func) (abi this) of
                  Inl e \<Rightarrow> (Rejected e, calls')
                | Inr adaptedOutput \<Rightarrow> (Fulfilled adaptedOutput, calls'))))"

section \<open>Statements of the specification\<close>

text \<open>
  The status observations after which the specification keeps the wait pending: the
  status is \<^verbatim>\<open>NOT_RECEIVED\<close> or \<^verbatim>\<open>RECEIVED\<close>, or it is \<^verbatim>\<open>PENDING\<close> and the block
  reference is not settled: it is falsy (missing, \<^verbatim>\<open>null\<close> or empty) or is the text
  \<^verbatim>\<open>pending\<close>.
\<close>

definition stays_pending :: "(string \<times> jsval) list \<Rightarrow> bool" where
  "stays_pending fs =
     (field fs ''tx_status'' \<in> {JStr ''NOT_RECEIVED'', JStr ''RECEIVED''}
      \<or> (field fs ''tx_status'' = JStr ''PENDING''
           \<and> (\<not> truthy (field fs ''block_hash'') \<or> field fs ''block_hash'' = JStr ''pending'')))"

text \<open>What the status query of one poll cycle returns: the parsed status, or what it throws.\<close>

definition observed :: "env \<Rightarrow> arguments \<Rightarrow> command list \<Rightarrow> error + jsval" where
  "observed E a calls =
     fst (checkStatus E (arg_txHash a) (arg_starknetWrapper a) (arg_gatewayUrl a)
            (arg_feederGatewayUrl a) calls)"

definition poll_command :: "env \<Rightarrow> arguments \<Rightarrow> command" where
  "poll_command E a =
     tx_status_command E (arg_txHash a) (arg_gatewayUrl a) (arg_feederGatewayUrl a)"

text \<open>An ABI entry lacks a name when the property is missing or is the empty string.\<close>

definition lacks_name :: "AbiEntry \<Rightarrow> bool" where
  "lacks_name abiEntry = (name abiEntry = None \<or> name abiEntry = Some [])"

text \<open>A handle's address is unset when it is \<^verbatim>\<open>undefined\<close> or the empty string.\<close>

definition address_unset :: "StarknetContract \<Rightarrow> bool" where
  "address_unset this = (address this = None \<or> address this = Some [])"

text \<open>
  The arguments are absent or empty: \<^verbatim>\<open>undefined\<close>, or an object with no property.
\<close>

definition absent_or_empty :: "jsval \<Rightarrow> bool" where
  "absent_or_empty args = (args = JUndefined \<or> args = JObj [])"

text \<open>
  The command that \<^verbatim>\<open>invokeOrCall\<close> submits when it passes no \<^verbatim>\<open>--inputs\<close>: the
  fixed options of lines 319-326, followed by the signature when there is one.
\<close>

definition command_without_inputs ::
  "env \<Rightarrow> StarknetContract \<Rightarrow> Kind \<Rightarrow> string \<Rightarrow> string \<Rightarrow> Numeric list option \<Rightarrow> command" where
  "command_without_inputs E this kind address' functionName signature =
     (''starknet'',
      [kind_text kind,
       ''--address'', address',
       ''--abi'', abiPath this,
       ''--function'', functionName,
       ''--gateway_url'', adaptUrl E (gatewayUrl this),
       ''--feeder_gateway_url'', adaptUrl E (feederGatewayUrl this)]
      @ (case signature of
           None \<Rightarrow> []
         | Some parts \<Rightarrow> [''--signature''] @ map Numeric_toString parts),
      [abiPath this])"

text \<open>
  The output that \<^verbatim>\<open>deploy\<close> goes on to read: the standard output of the client, when
  the constructor arguments were accepted and the client ended with exit status 0,
  together with the commands submitted so far.
\<close>

definition submitted_output ::
  "env \<Rightarrow> StarknetContractFactory \<Rightarrow> jsval \<Rightarrow> Numeric list option \<Rightarrow> command list
     \<Rightarrow> (string \<times> command list) option" where
  "submitted_output E this constructorArguments signature calls =
     (case handleConstructorArguments E this constructorArguments
             [''deploy'',
              ''--contract'', metadataPath this,
              ''--gateway_url'', adaptUrl E (gatewayUrl this)] of
        Inl e \<Rightarrow> None
      | Inr starknetArgs \<Rightarrow>
          (case runCommand (starknetWrapper this)
                  (''starknet'', handleSignature signature starknetArgs, [metadataPath this])
                  calls of
             (Inl e, calls') \<Rightarrow> None
           | (Inr executed, calls') \<Rightarrow>
               if statusCode executed \<noteq> 0 then None else Some (stdout executed, calls')))"

text \<open>The arguments with which \<^verbatim>\<open>deploy\<close> and \<^verbatim>\<open>invoke\<close> start the status polling.\<close>

definition polling_arguments :: "'a StarknetContractConfig_scheme \<Rightarrow> string \<Rightarrow> arguments" where
  "polling_arguments this txHash =
     \<lparr>arg_txHash = txHash,
      arg_starknetWrapper = starknetWrapper this,
      arg_gatewayUrl = gatewayUrl this,
      arg_feederGatewayUrl = feederGatewayUrl this\<rparr>"

definition not_deployed :: error where
  "not_deployed = HardhatPluginError ''Contract not deployed''"




definition missing_constructor_arguments :: error where
  "missing_constructor_arguments =
     HardhatPluginError ''Constructor arguments required but not provided.''"

definition unexpected_constructor_arguments :: error where
  "unexpected_constructor_arguments =
     HardhatPluginError ''Constructor arguments provided but not required.''"

section \<open>Example inputs\<close>

text \<open>
  A small world for evaluating the functions: status objects and their JSON texts, a
  parser that knows these texts, an ABI, an encoder that prints bigint arguments in the
  order of the declared inputs, and a client that answers a status query with a given
  result and every other command with a given output.
\<close>

definition quoted :: "string \<Rightarrow> string" where
  "quoted s = [CHR 0x22] @ s @ [CHR 0x22]"

definition status_json :: "string \<Rightarrow> string \<Rightarrow> string" where
  "status_json st bh =
     ''{'' @ quoted ''block_hash'' @ '': '' @ bh @ '', '' @ quoted ''tx_status'' @ '': ''
       @ quoted st @ ''}''"

definition status_object :: "string \<Rightarrow> jsval \<Rightarrow> (string \<times> jsval) list" where
  "status_object st bh = [(''block_hash'', bh), (''tx_status'', JStr st)]"

definition example_parse :: "string \<Rightarrow> jsval option" where
  "example_parse s =
     (if s = status_json ''ACCEPTED_ONCHAIN'' (quoted ''0x1'')
      then Some (JObj (status_object ''ACCEPTED_ONCHAIN'' (JStr ''0x1'')))
      else if s = status_json ''PENDING'' (quoted ''pending'')
      then Some (JObj (status_object ''PENDING'' (JStr ''pending'')))
      else if s = status_json ''RECEIVED'' ''null''
      then Some (JObj (status_object ''RECEIVED'' JNull))
      else if s = status_json ''REJECTED'' ''null''
      then Some (JObj (status_object ''REJECTED'' JNull))
      else None)"

definition constructor_entry :: AbiEntry where
  "constructor_entry =
     \<lparr>name = Some ''constructor'', type = ''constructor'',
      inputs = [(''initial_balance'', ''felt'')], outputs = []\<rparr>"

definition bare_constructor_entry :: AbiEntry where
  "bare_constructor_entry =
     \<lparr>name = Some ''constructor'', type = ''constructor'', inputs = [], outputs = []\<rparr>"

definition increase_balance_entry :: AbiEntry where
  "increase_balance_entry =
     \<lparr>name = Some ''increase_balance'', type = ''function'',
      inputs = [(''amount'', ''felt'')], outputs = []\<rparr>"

definition get_balance_entry :: AbiEntry where
  "get_balance_entry =
     \<lparr>name = Some ''get_balance'', type = ''function'',
      inputs = [], outputs = [(''res'', ''felt'')]\<rparr>"

definition nameless_entry :: AbiEntry where
  "nameless_entry = \<lparr>name = None, type = ''function'', inputs = [], outputs = []\<rparr>"

definition example_files :: "string \<Rightarrow> error + AbiEntry list" where
  "example_files path =
     (if path = ''contract_abi.json''
      then Inr [constructor_entry, increase_balance_entry, get_balance_entry]
      else if path = ''bare_abi.json''
      then Inr [bare_constructor_entry, get_balance_entry]
      else if path = ''plain_abi.json''
      then Inr [increase_balance_entry, get_balance_entry]
      else if path = ''broken_abi.json''
      then Inr [increase_balance_entry, nameless_entry]
      else Inl (Error ''ENOENT''))"

definition example_adaptInput ::
  "string option \<Rightarrow> jsval \<Rightarrow> (string \<times> string) list \<Rightarrow> Abi \<Rightarrow> error + string list" where
  "example_adaptInput functionName input inputSpecs a =
     (case input of
        JObj fs \<Rightarrow>
          Inr (map (\<lambda>(n, t). case field fs n of
                               JBigInt i \<Rightarrow> Numeric_toString i
                             | v \<Rightarrow> ''0'') inputSpecs)
      | v \<Rightarrow> Inl (HardhatPluginError ''Expected an object''))"

definition example_env :: env where
  "example_env =
     \<lparr>JSON_parse = example_parse,
      abi_file = example_files,
      adaptInput = example_adaptInput,
      adaptOutput = (\<lambda>out specs a. Inr (JObj [(''res'', JStr out)])),
      adaptUrl = (\<lambda>url. url),
      adaptLog = (\<lambda>msg. msg),
      CHECK_STATUS_TIMEOUT = 5000\<rparr>"

definition answer :: "string \<Rightarrow> ProcessResult" where
  "answer out = \<lparr>statusCode = 0, stdout = out, stderr = []\<rparr>"

definition example_wrapper :: "ProcessResult \<Rightarrow> string \<Rightarrow> StarknetWrapper" where
  "example_wrapper status_answer out h =
     (case rev h of
        [] \<Rightarrow> Inl (Error ''no command'')
      | (c, args, paths) # earlier \<Rightarrow>
          if take 1 args = [''tx_status''] then Inr status_answer else Inr (answer out))"

definition two_address_lines :: string where
  "two_address_lines =
     ''Contract address: '' @ [CHR 0x0A] @ ''Contract address: 0x1'' @ [CHR 0x0A]
       @ ''Transaction hash: 0x2'' @ [CHR 0x0A]"

definition plain_abi :: Abi where
  "plain_abi =
     [(''increase_balance'', increase_balance_entry), (''get_balance'', get_balance_entry)]"

definition deploy_command :: command where
  "deploy_command =
     (''starknet'',
      [''deploy'', ''--contract'', ''contract.json'', ''--gateway_url'', ''http://localhost:5000''],
      [''contract.json''])"

definition status_command :: command where
  "status_command =
     (''starknet'',
      [''tx_status'', ''--hash'', ''0x2'', ''--gateway_url'', ''http://localhost:5000'',
       ''--feeder_gateway_url'', ''http://localhost:5000''],
      [])"

definition invoke_command :: command where
  "invoke_command =
     (''starknet'',
      [''invoke'', ''--address'', ''0x1'', ''--abi'', ''contract_abi.json'',
       ''--function'', ''increase_balance'', ''--gateway_url'', ''http://localhost:5000'',
       ''--feeder_gateway_url'', ''http://localhost:5000'', ''--inputs'', ''10''],
      [''contract_abi.json''])"

definition refused :: ProcessResult where
  "refused = \<lparr>statusCode = 1, stdout = [], stderr = ''Connection refused''\<rparr>"

definition bare_abi :: Abi where
  "bare_abi = [(''constructor'', bare_constructor_entry), (''get_balance'', get_balance_entry)]"

definition deploy_output :: string where
  "deploy_output =
     ''Contract address: 0x1'' @ [CHR 0x0A] @ ''Transaction hash: 0x2'' @ [CHR 0x0A]"

definition example_arguments :: "ProcessResult \<Rightarrow> arguments" where
  "example_arguments status_answer =
     \<lparr>arg_txHash = ''0x2'',
      arg_starknetWrapper = example_wrapper status_answer deploy_output,
      arg_gatewayUrl = ''http://localhost:5000'',
      arg_feederGatewayUrl = ''http://localhost:5000''\<rparr>"

definition example_contract :: "ProcessResult \<Rightarrow> string option \<Rightarrow> StarknetContract" where
  "example_contract status_answer address' =
     \<lparr>starknetWrapper = example_wrapper status_answer deploy_output,
      abiPath = ''contract_abi.json'',
      gatewayUrl = ''http://localhost:5000'',
      feederGatewayUrl = ''http://localhost:5000'',
      abi = [(''constructor'', constructor_entry),
             (''increase_balance'', increase_balance_entry),
             (''get_balance'', get_balance_entry)],
      address = address'\<rparr>"

definition example_config :: "string \<Rightarrow> string \<Rightarrow> StarknetContractFactoryConfig" where
  "example_config path out =
     \<lparr>starknetWrapper =
        example_wrapper (answer (status_json ''ACCEPTED_ONCHAIN'' (quoted ''0x1''))) out,
      abiPath = path,
      gatewayUrl = ''http://localhost:5000'',
      feederGatewayUrl = ''http://localhost:5000'',
      metadataPath = ''contract.json''\<rparr>"

definition example_factory ::
  "string \<Rightarrow> Abi \<Rightarrow> AbiEntry option \<Rightarrow> string \<Rightarrow> StarknetContractFactory" where
  "example_factory path a c out =
     \<lparr>starknetWrapper =
        example_wrapper (answer (status_json ''ACCEPTED_ONCHAIN'' (quoted ''0x1''))) out,
      abiPath = path,
      gatewayUrl = ''http://localhost:5000'',
      feederGatewayUrl = ''http://localhost:5000'',
      metadataPath = ''contract.json'',
      factory_abi = a,
      constructorAbi = c\<rparr>"

section \<open>Properties of the status poller: one observation\<close>

lemma Array_includes_ACCEPTABLE:
  "Array_includes ACCEPTABLE_STATUSES v \<longleftrightarrow> v \<in> {JStr ''PENDING'', JStr ''ACCEPTED_ONCHAIN''}"
  by (cases v) (auto simp: ACCEPTABLE_STATUSES_def)

lemma Array_includes_UNACCEPTABLE:
  "Array_includes UNACCEPTABLE_STATUSES v \<longleftrightarrow> v = JStr ''REJECTED''"
  by (cases v) (auto simp: UNACCEPTABLE_STATUSES_def)

lemma isTxAccepted_JObj:
  "isTxAccepted (JObj fs) =
     Inr (if field fs ''tx_status'' \<in> {JStr ''PENDING'', JStr ''ACCEPTED_ONCHAIN''}
          then (if truthy (field fs ''block_hash'')
                then JBool (field fs ''block_hash'' \<noteq> JStr ''pending'')
                else field fs ''block_hash'')
          else JBool False)"
  by (simp add: isTxAccepted_def Array_includes_ACCEPTABLE)

lemma isTxRejected_JObj:
  "isTxRejected (JObj fs) = Inr (field fs ''tx_status'' = JStr ''REJECTED'')"
  by (simp add: isTxRejected_def Array_includes_UNACCEPTABLE)

lemma iterativelyCheckStatus_JObj:
  assumes "checkStatus E (arg_txHash a) (arg_starknetWrapper a) (arg_gatewayUrl a)
             (arg_feederGatewayUrl a) calls = (Inr (JObj fs), calls')"
  shows "iterativelyCheckStatus E a calls =
     (if field fs ''tx_status'' \<in> {JStr ''PENDING'', JStr ''ACCEPTED_ONCHAIN''}
          \<and> truthy (field fs ''block_hash'') \<and> field fs ''block_hash'' \<noteq> JStr ''pending''
      then CallResolve
      else if field fs ''tx_status'' = JStr ''REJECTED''
      then CallReject (Error ''Transaction rejected.'')
      else SetTimeout (CHECK_STATUS_TIMEOUT E) a, calls')"
  using assms
  by (simp add: iterativelyCheckStatus_def isTxAccepted_JObj isTxRejected_JObj)

lemma iterativelyCheckStatus_throw:
  assumes "checkStatus E (arg_txHash a) (arg_starknetWrapper a) (arg_gatewayUrl a)
             (arg_feederGatewayUrl a) calls = (Inl e, calls')"
  shows "iterativelyCheckStatus E a calls = (Throw e, calls')"
  using assms by (simp add: iterativelyCheckStatus_def)

lemma checkStatus_calls:
  "snd (checkStatus E txHash w g f calls) = calls @ [tx_status_command E txHash g f]"
  by (simp add: checkStatus_def runCommand_def split: sum.splits option.splits)

lemma checkStatus_answer:
  assumes "w (calls @ [tx_status_command E txHash g f]) = Inr r" "statusCode r = 0"
    "JSON_parse E (stdout r) = Some v"
  shows "checkStatus E txHash w g f calls = (Inr v, calls @ [tx_status_command E txHash g f])"
  using assms by (simp add: checkStatus_def runCommand_def)

lemma checkStatus_exit:
  assumes "w (calls @ [tx_status_command E txHash g f]) = Inr r" "statusCode r \<noteq> 0"
  shows "checkStatus E txHash w g f calls =
    (Inl (HardhatPluginError (stderr r)), calls @ [tx_status_command E txHash g f])"
  using assms by (simp add: checkStatus_def runCommand_def)

lemma checkStatus_unparsable:
  assumes "w (calls @ [tx_status_command E txHash g f]) = Inr r" "statusCode r = 0"
    "JSON_parse E (stdout r) = None"
  shows "checkStatus E txHash w g f calls =
    (Inl (HardhatPluginError (''Cannot interpret the following: '' @ stdout r)),
     calls @ [tx_status_command E txHash g f])"
  using assms by (simp add: checkStatus_def runCommand_def)

lemma run_timers_ended:
  assumes "iterativelyCheckStatus E a calls = (act, calls')" "\<And>t a'. act \<noteq> SetTimeout t a'"
  shows "run_timers E n a calls = (act, calls')"
  using assms by (cases n; cases act) auto


lemma observed_checkStatus:
  "checkStatus E (arg_txHash a) (arg_starknetWrapper a) (arg_gatewayUrl a)
     (arg_feederGatewayUrl a) calls = (observed E a calls, calls @ [poll_command E a])"
  using checkStatus_calls [of E "arg_txHash a" "arg_starknetWrapper a" "arg_gatewayUrl a"
      "arg_feederGatewayUrl a" calls]
  by (simp add: observed_def poll_command_def prod_eq_iff)

lemma step_JObj:
  assumes "observed E a calls = Inr (JObj fs)"
  shows "iterativelyCheckStatus E a calls =
     (if field fs ''tx_status'' \<in> {JStr ''PENDING'', JStr ''ACCEPTED_ONCHAIN''}
          \<and> truthy (field fs ''block_hash'') \<and> field fs ''block_hash'' \<noteq> JStr ''pending''
      then CallResolve
      else if field fs ''tx_status'' = JStr ''REJECTED''
      then CallReject (Error ''Transaction rejected.'')
      else SetTimeout (CHECK_STATUS_TIMEOUT E) a, calls @ [poll_command E a])"
  by (rule iterativelyCheckStatus_JObj) (simp add: observed_checkStatus assms)

lemma step_throw:
  assumes "observed E a calls = Inl e"
  shows "iterativelyCheckStatus E a calls = (Throw e, calls @ [poll_command E a])"
  by (rule iterativelyCheckStatus_throw) (simp add: observed_checkStatus assms)

lemma new_Promise_Fulfilled_iff: "new_Promise v act = Fulfilled v \<longleftrightarrow> act = CallResolve"
  by (cases act) auto

lemma stays_pending_step:
  assumes "observed E a calls = Inr (JObj fs)" "stays_pending fs"
  shows "iterativelyCheckStatus E a calls =
           (SetTimeout (CHECK_STATUS_TIMEOUT E) a, calls @ [poll_command E a])"
  using assms(2) unfolding step_JObj [OF assms(1)] stays_pending_def by auto

lemma step_shape:
  "fst (iterativelyCheckStatus E a calls)
     \<in> {CallResolve, CallReject (Error ''Transaction rejected.''),
        SetTimeout (CHECK_STATUS_TIMEOUT E) a} \<union> range Throw"
  by (auto simp: iterativelyCheckStatus_def split: prod.splits sum.splits)

lemma run_timers_shape:
  "fst (run_timers E n a calls)
     \<in> {CallResolve, CallReject (Error ''Transaction rejected.''),
        SetTimeout (CHECK_STATUS_TIMEOUT E) a} \<union> range Throw"
proof (induction n arbitrary: calls)
  case 0
  show ?case using step_shape [of E a calls] by simp
next
  case (Suc n)
  obtain act calls' where st: "iterativelyCheckStatus E a calls = (act, calls')"
    by (cases "iterativelyCheckStatus E a calls")
  from step_shape [of E a calls] st
  consider "act = CallResolve" | "act = CallReject (Error ''Transaction rejected.'')"
    | "act = SetTimeout (CHECK_STATUS_TIMEOUT E) a" | e where "act = Throw e"
    by auto
  then show ?case
  proof cases
    case 3
    then show ?thesis using st Suc.IH [of calls'] by simp
  qed (simp_all add: st)
qed

lemma run_timers_pending:
  assumes "\<And>k. \<exists>r fs. arg_starknetWrapper a (calls @ replicate (Suc k) (poll_command E a)) = Inr r
             \<and> statusCode r = 0 \<and> JSON_parse E (stdout r) = Some (JObj fs) \<and> stays_pending fs"
  shows "run_timers E n a calls =
           (SetTimeout (CHECK_STATUS_TIMEOUT E) a, calls @ replicate (Suc n) (poll_command E a))"
  using assms
proof (induction n arbitrary: calls)
  case 0
  from "0" [of 0] obtain r fs where
    r: "arg_starknetWrapper a (calls @ [poll_command E a]) = Inr r" "statusCode r = 0"
      "JSON_parse E (stdout r) = Some (JObj fs)" and sp: "stays_pending fs"
    by auto
  have "observed E a calls = Inr (JObj fs)"
    using checkStatus_answer [of "arg_starknetWrapper a" calls E "arg_txHash a"
        "arg_gatewayUrl a" "arg_feederGatewayUrl a" r "JObj fs"] r
    by (simp add: observed_def poll_command_def)
  from stays_pending_step [OF this sp] show ?case by simp
next
  case (Suc n)
  from Suc.prems [of 0] obtain r fs where
    r: "arg_starknetWrapper a (calls @ [poll_command E a]) = Inr r" "statusCode r = 0"
      "JSON_parse E (stdout r) = Some (JObj fs)" and sp: "stays_pending fs"
    by auto
  have "observed E a calls = Inr (JObj fs)"
    using checkStatus_answer [of "arg_starknetWrapper a" calls E "arg_txHash a"
        "arg_gatewayUrl a" "arg_feederGatewayUrl a" r "JObj fs"] r
    by (simp add: observed_def poll_command_def)
  from stays_pending_step [OF this sp]
  have st: "iterativelyCheckStatus E a calls =
           (SetTimeout (CHECK_STATUS_TIMEOUT E) a, calls @ [poll_command E a])" .
  have "run_timers E n a (calls @ [poll_command E a]) =
          (SetTimeout (CHECK_STATUS_TIMEOUT E) a,
           (calls @ [poll_command E a]) @ replicate (Suc n) (poll_command E a))"
  proof (rule Suc.IH)
    fix k
    from Suc.prems [of "Suc k"]
    show "\<exists>r fs. arg_starknetWrapper a
                    ((calls @ [poll_command E a]) @ replicate (Suc k) (poll_command E a)) = Inr r
             \<and> statusCode r = 0 \<and> JSON_parse E (stdout r) = Some (JObj fs) \<and> stays_pending fs"
      by simp
  qed
  then show ?case using st by simp
qed

text \<open>
  Claim C1. For every status object that a poll cycle's query returns, the cycle calls
  \<^verbatim>\<open>resolve\<close>, which fulfils the caller's wait, if and only if the object's
  \<^verbatim>\<open>tx_status\<close> is \<^verbatim>\<open>PENDING\<close> or \<^verbatim>\<open>ACCEPTED_ONCHAIN\<close>, its \<^verbatim>\<open>block_hash\<close> is
  truthy, and its \<^verbatim>\<open>block_hash\<close> is not the text \<^verbatim>\<open>pending\<close>; the same condition is
  exactly when \<^verbatim>\<open>isTxAccepted\<close> returns a truthy value. In particular the objects
  \<^verbatim>\<open>{tx_status: PENDING, block_hash: "pending"}\<close> and
  \<^verbatim>\<open>{tx_status: RECEIVED, block_hash: null}\<close> are not accepted.
\<close>

theorem accepted_iff:
  assumes "observed E a calls = Inr (JObj fs)"
  shows "((\<exists>x. isTxAccepted (JObj fs) = Inr x \<and> truthy x) \<longleftrightarrow>
            field fs ''tx_status'' \<in> {JStr ''PENDING'', JStr ''ACCEPTED_ONCHAIN''}
            \<and> truthy (field fs ''block_hash'') \<and> field fs ''block_hash'' \<noteq> JStr ''pending'')
       \<and> (fst (iterativelyCheckStatus E a calls) = CallResolve \<longleftrightarrow>
            field fs ''tx_status'' \<in> {JStr ''PENDING'', JStr ''ACCEPTED_ONCHAIN''}
            \<and> truthy (field fs ''block_hash'') \<and> field fs ''block_hash'' \<noteq> JStr ''pending'')
       \<and> (new_Promise v (fst (iterativelyCheckStatus E a calls)) = Fulfilled v \<longleftrightarrow>
            field fs ''tx_status'' \<in> {JStr ''PENDING'', JStr ''ACCEPTED_ONCHAIN''}
            \<and> truthy (field fs ''block_hash'') \<and> field fs ''block_hash'' \<noteq> JStr ''pending'')
       \<and> isTxAccepted (JObj (status_object ''PENDING'' (JStr ''pending''))) = Inr (JBool False)
       \<and> isTxAccepted (JObj (status_object ''RECEIVED'' JNull)) = Inr (JBool False)"
proof -
  let ?c = "field fs ''tx_status'' \<in> {JStr ''PENDING'', JStr ''ACCEPTED_ONCHAIN''}
            \<and> truthy (field fs ''block_hash'') \<and> field fs ''block_hash'' \<noteq> JStr ''pending''"
  have 1: "(\<exists>x. isTxAccepted (JObj fs) = Inr x \<and> truthy x) \<longleftrightarrow> ?c"
    by (simp add: isTxAccepted_JObj)
  have 2: "fst (iterativelyCheckStatus E a calls) = CallResolve \<longleftrightarrow> ?c"
    by (simp add: step_JObj [OF assms])
  have 3: "new_Promise v (fst (iterativelyCheckStatus E a calls)) = Fulfilled v \<longleftrightarrow> ?c"
    by (simp add: new_Promise_Fulfilled_iff 2)
  have 4: "isTxAccepted (JObj (status_object ''PENDING'' (JStr ''pending''))) = Inr (JBool False)"
    by (simp add: isTxAccepted_JObj status_object_def field_def)
  have 5: "isTxAccepted (JObj (status_object ''RECEIVED'' JNull)) = Inr (JBool False)"
    by (simp add: isTxAccepted_JObj status_object_def field_def)
  from 1 2 3 4 5 show ?thesis by blast
qed

lemma example_observed:
  "JSON_parse example_env out = Some v \<Longrightarrow>
   observed example_env (example_arguments (answer out)) [] = Inr v"
  by (simp add: observed_def checkStatus_def runCommand_def example_arguments_def
      example_wrapper_def tx_status_command_def answer_def)

lemma example_parse_simps:
  "JSON_parse example_env (status_json ''ACCEPTED_ONCHAIN'' (quoted ''0x1'')) =
     Some (JObj (status_object ''ACCEPTED_ONCHAIN'' (JStr ''0x1'')))"
  "JSON_parse example_env (status_json ''PENDING'' (quoted ''pending'')) =
     Some (JObj (status_object ''PENDING'' (JStr ''pending'')))"
  "JSON_parse example_env (status_json ''RECEIVED'' ''null'') =
     Some (JObj (status_object ''RECEIVED'' JNull))"
  "JSON_parse example_env (status_json ''REJECTED'' ''null'') =
     Some (JObj (status_object ''REJECTED'' JNull))"
  by (simp_all add: example_env_def example_parse_def status_json_def quoted_def)

theorem accepted_iff_witness:
  "observed example_env
     (example_arguments (answer (status_json ''ACCEPTED_ONCHAIN'' (quoted ''0x1'')))) []
     = Inr (JObj (status_object ''ACCEPTED_ONCHAIN'' (JStr ''0x1'')))
   \<and> fst (iterativelyCheckStatus example_env
        (example_arguments (answer (status_json ''ACCEPTED_ONCHAIN'' (quoted ''0x1'')))) [])
     = CallResolve
   \<and> observed example_env
     (example_arguments (answer (status_json ''PENDING'' (quoted ''pending'')))) []
     = Inr (JObj (status_object ''PENDING'' (JStr ''pending'')))
   \<and> fst (iterativelyCheckStatus example_env
        (example_arguments (answer (status_json ''PENDING'' (quoted ''pending'')))) [])
     \<noteq> CallResolve
   \<and> observed example_env
     (example_arguments (answer (status_json ''RECEIVED'' ''null''))) []
     = Inr (JObj (status_object ''RECEIVED'' JNull))
   \<and> fst (iterativelyCheckStatus example_env
        (example_arguments (answer (status_json ''RECEIVED'' ''null''))) [])
     \<noteq> CallResolve"
proof -
  note h1 = example_observed [OF example_parse_simps(1)]
  note h2 = example_observed [OF example_parse_simps(2)]
  note h3 = example_observed [OF example_parse_simps(3)]
  show ?thesis
    using h1 h2 h3 accepted_iff [OF h1, of "()"] accepted_iff [OF h2, of "()"]
      accepted_iff [OF h3, of "()"]
    by (simp add: status_object_def field_def)
qed

section \<open>Properties of the status poller: the wait\<close>

text \<open>
  Claim C4. A status object whose \<^verbatim>\<open>tx_status\<close> is \<^verbatim>\<open>NOT_RECEIVED\<close> or
  \<^verbatim>\<open>RECEIVED\<close>, or is \<^verbatim>\<open>PENDING\<close> without a settled block reference, makes the poll
  cycle schedule a call of itself with the same arguments after the fixed delay
  \<^verbatim>\<open>CHECK_STATUS_TIMEOUT\<close>. There is no retry limit: when every status query is answered
  by such an object, then after any number \<open>n\<close> of timers the wait has made \<open>n + 1\<close>
  queries, the next one is scheduled, and the caller's promise is pending. Whatever the
  answers are, after any number of timers the wait has resolved, has rejected with the
  transaction-rejected error, has ended by an exception, or has its next cycle scheduled
  with the same arguments and the same delay.
\<close>

theorem wait_unbounded:
  "(observed E a calls = Inr (JObj fs) \<and> stays_pending fs \<longrightarrow>
      iterativelyCheckStatus E a calls =
        (SetTimeout (CHECK_STATUS_TIMEOUT E) a, calls @ [poll_command E a]))
   \<and> ((\<forall>k. \<exists>r fs'. arg_starknetWrapper a (calls @ replicate (Suc k) (poll_command E a)) = Inr r
           \<and> statusCode r = 0 \<and> JSON_parse E (stdout r) = Some (JObj fs') \<and> stays_pending fs')
        \<longrightarrow> (\<forall>n. run_timers E n a calls =
               (SetTimeout (CHECK_STATUS_TIMEOUT E) a,
                calls @ replicate (Suc n) (poll_command E a))
             \<and> new_Promise v (fst (run_timers E n a calls)) = Pending))
   \<and> fst (run_timers E m a calls)
        \<in> {CallResolve, CallReject (Error ''Transaction rejected.''),
           SetTimeout (CHECK_STATUS_TIMEOUT E) a} \<union> range Throw"
proof (intro conjI impI allI)
  assume "observed E a calls = Inr (JObj fs) \<and> stays_pending fs"
  then show "iterativelyCheckStatus E a calls =
        (SetTimeout (CHECK_STATUS_TIMEOUT E) a, calls @ [poll_command E a])"
    using stays_pending_step by blast
next
  fix n
  assume h: "\<forall>k. \<exists>r fs'. arg_starknetWrapper a (calls @ replicate (Suc k) (poll_command E a)) = Inr r
           \<and> statusCode r = 0 \<and> JSON_parse E (stdout r) = Some (JObj fs') \<and> stays_pending fs'"
  then show r: "run_timers E n a calls =
               (SetTimeout (CHECK_STATUS_TIMEOUT E) a,
                calls @ replicate (Suc n) (poll_command E a))"
    by (intro run_timers_pending) blast
  show "new_Promise v (fst (run_timers E n a calls)) = Pending"
    by (simp add: r)
next
  show "fst (run_timers E m a calls)
        \<in> {CallResolve, CallReject (Error ''Transaction rejected.''),
           SetTimeout (CHECK_STATUS_TIMEOUT E) a} \<union> range Throw"
    by (rule run_timers_shape)
qed

lemma example_wrapper_poll:
  "example_wrapper r out (calls @ replicate (Suc k) (poll_command E a)) = Inr r"
proof -
  have "rev (calls @ replicate (Suc k) (poll_command E a))
          = poll_command E a # replicate k (poll_command E a) @ rev calls"
    by (simp add: replicate_append_same)
  then show ?thesis
    by (simp add: example_wrapper_def poll_command_def tx_status_command_def)
qed

lemma stays_pending_examples:
  "stays_pending (status_object ''PENDING'' (JStr ''pending''))"
  "stays_pending (status_object ''RECEIVED'' JNull)"
  by (simp_all add: stays_pending_def status_object_def field_def)

theorem wait_unbounded_witness:
  "observed example_env
     (example_arguments (answer (status_json ''RECEIVED'' ''null''))) []
     = Inr (JObj (status_object ''RECEIVED'' JNull))
   \<and> stays_pending (status_object ''RECEIVED'' JNull)
   \<and> iterativelyCheckStatus example_env
       (example_arguments (answer (status_json ''RECEIVED'' ''null''))) []
     = (SetTimeout 5000 (example_arguments (answer (status_json ''RECEIVED'' ''null''))),
        [(''starknet'',
          [''tx_status'', ''--hash'', ''0x2'', ''--gateway_url'', ''http://localhost:5000'',
           ''--feeder_gateway_url'', ''http://localhost:5000''], [])])
   \<and> run_timers example_env 3
       (example_arguments (answer (status_json ''PENDING'' (quoted ''pending'')))) []
     = (SetTimeout 5000 (example_arguments (answer (status_json ''PENDING'' (quoted ''pending'')))),
        replicate 4 (''starknet'',
          [''tx_status'', ''--hash'', ''0x2'', ''--gateway_url'', ''http://localhost:5000'',
           ''--feeder_gateway_url'', ''http://localhost:5000''], []))
   \<and> new_Promise ()
        (fst (run_timers example_env 3
          (example_arguments (answer (status_json ''PENDING'' (quoted ''pending'')))) []))
     = Pending"
proof -
  let ?a = "example_arguments (answer (status_json ''RECEIVED'' ''null''))"
  let ?b = "example_arguments (answer (status_json ''PENDING'' (quoted ''pending'')))"
  note h = example_observed [OF example_parse_simps(3)]
  have cmd: "poll_command example_env (example_arguments r) =
    (''starknet'',
          [''tx_status'', ''--hash'', ''0x2'', ''--gateway_url'', ''http://localhost:5000'',
           ''--feeder_gateway_url'', ''http://localhost:5000''], [])" for r
    by (simp add: poll_command_def tx_status_command_def example_arguments_def example_env_def)
  have tm: "CHECK_STATUS_TIMEOUT example_env = 5000"
    by (simp add: example_env_def)
  have all: "\<forall>k. \<exists>r fs'. arg_starknetWrapper ?b ([] @ replicate (Suc k) (poll_command example_env ?b)) = Inr r
           \<and> statusCode r = 0 \<and> JSON_parse example_env (stdout r) = Some (JObj fs') \<and> stays_pending fs'"
  proof
    fix k
    have "arg_starknetWrapper ?b ([] @ replicate (Suc k) (poll_command example_env ?b))
            = Inr (answer (status_json ''PENDING'' (quoted ''pending'')))"
      unfolding example_arguments_def arguments.simps by (rule example_wrapper_poll)
    moreover have "statusCode (answer (status_json ''PENDING'' (quoted ''pending''))) = 0"
      by (simp add: answer_def)
    moreover have "JSON_parse example_env (stdout (answer (status_json ''PENDING'' (quoted ''pending''))))
        = Some (JObj (status_object ''PENDING'' (JStr ''pending'')))"
      using example_parse_simps(2) by (simp add: answer_def)
    ultimately show "\<exists>r fs'. arg_starknetWrapper ?b ([] @ replicate (Suc k) (poll_command example_env ?b)) = Inr r
           \<and> statusCode r = 0 \<and> JSON_parse example_env (stdout r) = Some (JObj fs') \<and> stays_pending fs'"
      using stays_pending_examples(1) by blast
  qed
  from wait_unbounded [of example_env ?a "[]" "status_object ''RECEIVED'' JNull" "()" 0]
    h stays_pending_examples(2)
  have 1: "iterativelyCheckStatus example_env ?a [] =
        (SetTimeout (CHECK_STATUS_TIMEOUT example_env) ?a, [] @ [poll_command example_env ?a])"
    by blast
  from wait_unbounded [of example_env ?b "[]" "[]" "()" 0] all
  have 2: "run_timers example_env 3 ?b [] =
               (SetTimeout (CHECK_STATUS_TIMEOUT example_env) ?b,
                [] @ replicate (Suc 3) (poll_command example_env ?b))
             \<and> new_Promise () (fst (run_timers example_env 3 ?b [])) = Pending"
    by blast
  show ?thesis
    using h stays_pending_examples(2) 1 2 by (simp add: cmd tm)
qed



section \<open>Properties of invoke and call\<close>

lemma invokeOrCall_unset:
  assumes "address_unset this"
  shows "invokeOrCall E this kind functionName args signature calls = (Inl not_deployed, calls)"
  using assms
  by (auto simp: invokeOrCall_def address_unset_def not_deployed_def split: option.splits)




lemma has_keys_absent_or_empty: "absent_or_empty args \<Longrightarrow> has_keys args = Inr False"
  by (auto simp: absent_or_empty_def has_keys_def)

lemma not_array_absent_or_empty: "absent_or_empty args \<Longrightarrow> \<not> Array_isArray args"
  by (auto simp: absent_or_empty_def)

lemma invokeOrCall_no_inputs:
  assumes "address this = Some address'" "address' \<noteq> []"
    "map_of (abi this) functionName = Some func" "absent_or_empty args"
  shows "invokeOrCall E this kind functionName args signature calls =
     (case starknetWrapper this
             (calls @ [command_without_inputs E this kind address' functionName signature]) of
        Inl e \<Rightarrow> Inl e
      | Inr executed \<Rightarrow>
          if statusCode executed \<noteq> 0
          then Inl (HardhatPluginError
                      (adaptLog E (''Could not '' @ kind_text kind @ '' '' @ functionName
                         @ [CHR '':'', CHR 0x0A] @ stderr executed)))
          else Inr executed,
      calls @ [command_without_inputs E this kind address' functionName signature])"
  using assms
  by (simp add: invokeOrCall_def has_keys_absent_or_empty not_array_absent_or_empty
      runCommand_def command_without_inputs_def split: sum.splits)

lemma invoke_Inl:
  "invokeOrCall E this Invoke functionName args signature calls = (Inl e, calls')
   \<Longrightarrow> invoke E n this functionName args signature calls = (Rejected e, calls')"
  by (simp add: invoke_def)

lemma call_Inl:
  "invokeOrCall E this Call functionName args signature calls = (Inl e, calls')
   \<Longrightarrow> call E this functionName args signature calls = (Rejected e, calls')"
  by (simp add: call_def)

lemma handleConstructorArguments_missing:
  assumes "constructorAbi this = Some c" "has_keys args = Inr False"
  shows "handleConstructorArguments E this args starknetArgs = Inl missing_constructor_arguments"
  using assms by (simp add: handleConstructorArguments_def missing_constructor_arguments_def)

text \<open>
  Claim C6. For every invoke or call on a contract handle whose address is unset, the
  operation fails with the error \<^verbatim>\<open>Contract not deployed\<close>, and the list of the
  commands sent to the client is the one the operation started with: nothing was
  submitted. This holds for \<^verbatim>\<open>invokeOrCall\<close> and for \<^verbatim>\<open>invoke\<close> and \<^verbatim>\<open>call\<close> built on
  it, whatever the function name, the arguments and the signature are.
\<close>

theorem undeployed_fails_first:
  assumes "address_unset this"
  shows "invokeOrCall E this kind functionName args signature calls = (Inl not_deployed, calls)
       \<and> invoke E n this functionName args signature calls = (Rejected not_deployed, calls)
       \<and> call E this functionName args signature calls = (Rejected not_deployed, calls)"
  by (simp add: invokeOrCall_unset [OF assms] invoke_Inl call_Inl)

lemma example_contract_simps:
  "address (example_contract r ad) = ad"
  "map_of (abi (example_contract r ad)) ''increase_balance'' = Some increase_balance_entry"
  "map_of (abi (example_contract r ad)) ''transfer'' = None"
  "abiPath (example_contract r ad) = ''contract_abi.json''"
  "starknetWrapper (example_contract r ad) = example_wrapper r deploy_output"
  "gatewayUrl (example_contract r ad) = ''http://localhost:5000''"
  "feederGatewayUrl (example_contract r ad) = ''http://localhost:5000''"
  by (simp_all add: example_contract_def)

theorem undeployed_fails_first_witness:
  "address_unset (example_contract (answer []) None)
   \<and> invoke example_env 5 (example_contract (answer []) None) ''increase_balance''
        (JObj [(''amount'', JBigInt 10)]) None []
      = (Rejected (HardhatPluginError ''Contract not deployed''), [])
   \<and> call example_env (example_contract (answer []) None) ''get_balance'' JUndefined None []
      = (Rejected (HardhatPluginError ''Contract not deployed''), [])"
proof -
  have h: "address_unset (example_contract (answer []) None)"
    by (simp add: address_unset_def example_contract_simps)
  show ?thesis
    using h undeployed_fails_first [OF h, of example_env Invoke "''increase_balance''"
        "JObj [(''amount'', JBigInt 10)]" None "[]" 5]
      undeployed_fails_first [OF h, of example_env Call "''get_balance''" JUndefined None "[]" 0]
    by (simp add: not_deployed_def)
qed




text \<open>
  Claim C10, as stated, fails on a handle without an address: there the operation is
  rejected before anything is submitted, whatever the arguments are.
\<close>

theorem no_missing_argument_check_counterexample:
  "absent_or_empty JUndefined
   \<and> map_of (abi (example_contract (answer []) None)) ''increase_balance''
       = Some increase_balance_entry
   \<and> inputs increase_balance_entry \<noteq> []
   \<and> invoke example_env 5 (example_contract (answer []) None) ''increase_balance''
        JUndefined None []
      = (Rejected (HardhatPluginError ''Contract not deployed''), [])"
  by (simp add: invoke_def invokeOrCall_def example_contract_simps absent_or_empty_def
      increase_balance_entry_def)

text \<open>
  Claim C10, amended. For every invoke or call, on a handle whose address is set, of a
  function of the ABI whose declared input list is non-empty, absent or empty arguments
  are not rejected by the plugin: the command is submitted without \<^verbatim>\<open>--inputs\<close>, and
  the result is what the client answers (an error only when the client fails). For a
  factory whose ABI has a constructor entry, the same arguments make
  \<^verbatim>\<open>handleConstructorArguments\<close> throw the missing-arguments error.
\<close>

theorem no_missing_argument_check:
  assumes "address this = Some address'" "address' \<noteq> []"
    "map_of (abi this) functionName = Some func" "inputs func \<noteq> []"
    "absent_or_empty args"
  shows "snd (invokeOrCall E this kind functionName args signature calls)
           = calls @ [command_without_inputs E this kind address' functionName signature]
       \<and> fst (invokeOrCall E this kind functionName args signature calls)
           = (case starknetWrapper this
                     (calls @ [command_without_inputs E this kind address' functionName signature]) of
                Inl e \<Rightarrow> Inl e
              | Inr executed \<Rightarrow>
                  if statusCode executed \<noteq> 0
                  then Inl (HardhatPluginError
                              (adaptLog E (''Could not '' @ kind_text kind @ '' '' @ functionName
                                 @ [CHR '':'', CHR 0x0A] @ stderr executed)))
                  else Inr executed)
       \<and> (constructorAbi factory \<noteq> None \<longrightarrow>
            handleConstructorArguments E factory args starknetArgs
              = Inl missing_constructor_arguments)"
proof (intro conjI impI)
  note r = invokeOrCall_no_inputs [OF assms(1,2,3,5), of E kind signature calls]
  show "snd (invokeOrCall E this kind functionName args signature calls)
           = calls @ [command_without_inputs E this kind address' functionName signature]"
    by (simp add: r)
  show "fst (invokeOrCall E this kind functionName args signature calls)
           = (case starknetWrapper this
                     (calls @ [command_without_inputs E this kind address' functionName signature]) of
                Inl e \<Rightarrow> Inl e
              | Inr executed \<Rightarrow>
                  if statusCode executed \<noteq> 0
                  then Inl (HardhatPluginError
                              (adaptLog E (''Could not '' @ kind_text kind @ '' '' @ functionName
                                 @ [CHR '':'', CHR 0x0A] @ stderr executed)))
                  else Inr executed)"
    by (simp add: r)
next
  assume "constructorAbi factory \<noteq> None"
  then obtain c where "constructorAbi factory = Some c"
    by auto
  then show "handleConstructorArguments E factory args starknetArgs
              = Inl missing_constructor_arguments"
    by (rule handleConstructorArguments_missing) (rule has_keys_absent_or_empty [OF assms(5)])
qed

theorem no_missing_argument_check_witness:
  "address (example_contract (answer []) (Some ''0x1'')) = Some ''0x1''
   \<and> map_of (abi (example_contract (answer []) (Some ''0x1''))) ''increase_balance''
       = Some increase_balance_entry
   \<and> inputs increase_balance_entry \<noteq> []
   \<and> absent_or_empty (JObj [])
   \<and> invokeOrCall example_env (example_contract (answer []) (Some ''0x1'')) Invoke
        ''increase_balance'' (JObj []) None []
      = (Inr (answer deploy_output),
         [(''starknet'',
           [''invoke'', ''--address'', ''0x1'', ''--abi'', ''contract_abi.json'',
            ''--function'', ''increase_balance'', ''--gateway_url'', ''http://localhost:5000'',
            ''--feeder_gateway_url'', ''http://localhost:5000''],
           [''contract_abi.json''])])
   \<and> constructorAbi
        (example_factory ''contract_abi.json'' [] (Some constructor_entry) deploy_output)
       \<noteq> None
   \<and> handleConstructorArguments example_env
        (example_factory ''contract_abi.json'' [] (Some constructor_entry) deploy_output)
        (JObj []) [''deploy'']
      = Inl (HardhatPluginError ''Constructor arguments required but not provided.'')"
proof -
  let ?c = "example_contract (answer []) (Some ''0x1'')"
  let ?f = "example_factory ''contract_abi.json'' [] (Some constructor_entry) deploy_output"
  have a: "address ?c = Some ''0x1''" "''0x1'' \<noteq> []"
    by (simp_all add: example_contract_simps)
  have f: "map_of (abi ?c) ''increase_balance'' = Some increase_balance_entry"
    by (simp add: example_contract_simps)
  have i: "inputs increase_balance_entry \<noteq> []"
    by (simp add: increase_balance_entry_def)
  have e: "absent_or_empty (JObj [])"
    by (simp add: absent_or_empty_def)
  have c: "constructorAbi ?f \<noteq> None"
    by (simp add: example_factory_def)
  have cmd: "command_without_inputs example_env ?c Invoke ''0x1'' ''increase_balance'' None =
     (''starknet'',
           [''invoke'', ''--address'', ''0x1'', ''--abi'', ''contract_abi.json'',
            ''--function'', ''increase_balance'', ''--gateway_url'', ''http://localhost:5000'',
            ''--feeder_gateway_url'', ''http://localhost:5000''],
           [''contract_abi.json''])"
    by (simp add: command_without_inputs_def example_contract_simps example_env_def)
  have w: "example_wrapper (answer []) deploy_output
             [(''starknet'',
           [''invoke'', ''--address'', ''0x1'', ''--abi'', ''contract_abi.json'',
            ''--function'', ''increase_balance'', ''--gateway_url'', ''http://localhost:5000'',
            ''--feeder_gateway_url'', ''http://localhost:5000''],
           [''contract_abi.json''])] = Inr (answer deploy_output)"
    by (simp add: example_wrapper_def answer_def)
  have s: "statusCode (answer deploy_output) = 0"
    by (simp add: answer_def)
  from no_missing_argument_check [OF a f i e, of example_env Invoke None "[]" ?f "[''deploy'']"]
  show ?thesis
    using a(1) f i e c
    by (simp add: cmd w s example_contract_simps prod_eq_iff
        missing_constructor_arguments_def)
qed

section \<open>Properties of the ABI index\<close>

lemma readAbi_loop_fails_iff:
  "(\<exists>e. readAbi_loop abiArray acc = Inl e) \<longleftrightarrow> (\<exists>abiEntry\<in>set abiArray. lacks_name abiEntry)"
  by (induction abiArray arbitrary: acc) (auto simp: lacks_name_def split: option.splits)

lemma readAbi_loop_error:
  "readAbi_loop abiArray acc = Inl e
   \<Longrightarrow> e = HardhatPluginError ''Abi entry has no name: [object Object]''"
  by (induction abiArray arbitrary: acc) (auto split: option.splits if_splits)

lemma set_update_cases:
  "(k, v) \<in> set (AList.update k' v' al) \<Longrightarrow> (k, v) = (k', v') \<or> (k, v) \<in> set al"
  by (induction al) (auto split: if_splits)

lemma readAbi_loop_entries:
  assumes "readAbi_loop abiArray acc = Inr a" "set abiArray \<subseteq> S"
    "\<forall>(n, entry)\<in>set acc. n \<noteq> [] \<and> name entry = Some n \<and> entry \<in> S"
  shows "\<forall>(n, entry)\<in>set a. n \<noteq> [] \<and> name entry = Some n \<and> entry \<in> S"
  using assms
proof (induction abiArray arbitrary: acc)
  case Nil
  then show ?case by simp
next
  case (Cons abiEntry abiArray)
  from Cons.prems(1) obtain n where n: "name abiEntry = Some n" "n \<noteq> []"
    and rest: "readAbi_loop abiArray (AList.update n abiEntry acc) = Inr a"
    by (auto split: option.splits if_splits)
  have "\<forall>(k, entry)\<in>set (AList.update n abiEntry acc).
          k \<noteq> [] \<and> name entry = Some k \<and> entry \<in> S"
    using Cons.prems(2,3) n by (auto dest!: set_update_cases)
  with Cons.IH [OF rest] Cons.prems(2) show ?case by simp
qed

lemma readAbi_loop_distinct:
  assumes "readAbi_loop abiArray acc = Inr a" "distinct (map fst acc)"
  shows "distinct (map fst a)"
  using assms
proof (induction abiArray arbitrary: acc)
  case Nil
  then show ?case by simp
next
  case (Cons abiEntry abiArray)
  from Cons.prems(1) obtain n where
    rest: "readAbi_loop abiArray (AList.update n abiEntry acc) = Inr a"
    by (auto split: option.splits if_splits)
  from Cons.IH [OF rest] Cons.prems(2) show ?case
    by (simp add: distinct_update)
qed

lemma readAbi_loop_dom:
  assumes "readAbi_loop abiArray acc = Inr a"
  shows "dom (map_of acc) \<subseteq> dom (map_of a)
       \<and> (\<forall>abiEntry\<in>set abiArray. \<exists>n. name abiEntry = Some n \<and> n \<in> dom (map_of a))"
  using assms
proof (induction abiArray arbitrary: acc)
  case Nil
  then show ?case by simp
next
  case (Cons abiEntry abiArray)
  from Cons.prems(1) obtain n where n: "name abiEntry = Some n"
    and rest: "readAbi_loop abiArray (AList.update n abiEntry acc) = Inr a"
    by (auto split: option.splits if_splits)
  from Cons.IH [OF rest]
  have 1: "dom (map_of (AList.update n abiEntry acc)) \<subseteq> dom (map_of a)"
    and 2: "\<forall>abiEntry\<in>set abiArray. \<exists>n. name abiEntry = Some n \<and> n \<in> dom (map_of a)"
    by simp_all
  from 1 have "insert n (dom (map_of acc)) \<subseteq> dom (map_of a)"
    by (simp add: update_conv')
  with 2 n show ?case by auto
qed

text \<open>
  Claim C8. When the file holds an array of ABI entries, loading it fails if and only if
  some entry of the array lacks a name (the name is missing or empty), and the failure is
  the error \<^verbatim>\<open>Abi entry has no name\<close>. When loading succeeds, the index maps the name
  of every entry of the array to an entry of the array with that name, and every entry of
  the index is stored under its own name, which is not empty; no name is listed twice.
\<close>

theorem readAbi_names:
  assumes "abi_file E path = Inr abiArray"
  shows "((\<exists>e. readAbi E path = Inl e) \<longleftrightarrow> (\<exists>abiEntry\<in>set abiArray. lacks_name abiEntry))
       \<and> (readAbi E path = Inl (HardhatPluginError ''Abi entry has no name: [object Object]'')
            \<longleftrightarrow> (\<exists>abiEntry\<in>set abiArray. lacks_name abiEntry))
       \<and> (\<forall>a. readAbi E path = Inr a \<longrightarrow>
            (\<forall>abiEntry\<in>set abiArray. \<exists>n entry.
                name abiEntry = Some n \<and> n \<noteq> [] \<and> map_of a n = Some entry
                \<and> name entry = Some n \<and> entry \<in> set abiArray)
            \<and> (\<forall>(n, entry)\<in>set a. n \<noteq> [] \<and> name entry = Some n \<and> entry \<in> set abiArray)
            \<and> distinct (map fst a))"
proof -
  have r: "readAbi E path = readAbi_loop abiArray []"
    by (simp add: readAbi_def assms)
  have 1: "(\<exists>e. readAbi E path = Inl e) \<longleftrightarrow> (\<exists>abiEntry\<in>set abiArray. lacks_name abiEntry)"
    unfolding r by (rule readAbi_loop_fails_iff)
  have 2: "readAbi E path = Inl (HardhatPluginError ''Abi entry has no name: [object Object]'')
            \<longleftrightarrow> (\<exists>abiEntry\<in>set abiArray. lacks_name abiEntry)"
    using 1 readAbi_loop_error [of abiArray "[]"] unfolding r by metis
  have 3: "(\<forall>abiEntry\<in>set abiArray. \<exists>n entry.
                name abiEntry = Some n \<and> n \<noteq> [] \<and> map_of a n = Some entry
                \<and> name entry = Some n \<and> entry \<in> set abiArray)
            \<and> (\<forall>(n, entry)\<in>set a. n \<noteq> [] \<and> name entry = Some n \<and> entry \<in> set abiArray)
            \<and> distinct (map fst a)" if ok: "readAbi E path = Inr a" for a
  proof -
    from ok have l: "readAbi_loop abiArray [] = Inr a"
      by (simp add: r)
    have inv: "\<forall>(n, entry)\<in>set a. n \<noteq> [] \<and> name entry = Some n \<and> entry \<in> set abiArray"
      by (rule readAbi_loop_entries [OF l]) simp_all
    have d: "distinct (map fst a)"
      by (rule readAbi_loop_distinct [OF l]) simp
    have "\<exists>n entry. name abiEntry = Some n \<and> n \<noteq> [] \<and> map_of a n = Some entry
                \<and> name entry = Some n \<and> entry \<in> set abiArray"
      if "abiEntry \<in> set abiArray" for abiEntry
    proof -
      from readAbi_loop_dom [OF l] that obtain n entry where
        n: "name abiEntry = Some n" "map_of a n = Some entry"
        by blast
      from n(2) have "(n, entry) \<in> set a"
        by (rule map_of_SomeD)
      with inv have "n \<noteq> [] \<and> name entry = Some n \<and> entry \<in> set abiArray"
        by auto
      with n show ?thesis by blast
    qed
    with inv d show ?thesis by blast
  qed
  from 1 2 3 show ?thesis by blast
qed

lemma example_files_simps:
  "abi_file example_env ''contract_abi.json''
     = Inr [constructor_entry, increase_balance_entry, get_balance_entry]"
  "abi_file example_env ''bare_abi.json'' = Inr [bare_constructor_entry, get_balance_entry]"
  "abi_file example_env ''broken_abi.json'' = Inr [increase_balance_entry, nameless_entry]"
  by (simp_all add: example_env_def example_files_def)

lemma example_entry_names:
  "name constructor_entry = Some ''constructor''"
  "name bare_constructor_entry = Some ''constructor''"
  "name increase_balance_entry = Some ''increase_balance''"
  "name get_balance_entry = Some ''get_balance''"
  "name nameless_entry = None"
  by (simp_all add: constructor_entry_def bare_constructor_entry_def
      increase_balance_entry_def get_balance_entry_def nameless_entry_def)

theorem readAbi_names_witness:
  "abi_file example_env ''broken_abi.json'' = Inr [increase_balance_entry, nameless_entry]
   \<and> lacks_name nameless_entry
   \<and> readAbi example_env ''broken_abi.json''
       = Inl (HardhatPluginError ''Abi entry has no name: [object Object]'')
   \<and> abi_file example_env ''contract_abi.json''
       = Inr [constructor_entry, increase_balance_entry, get_balance_entry]
   \<and> readAbi example_env ''contract_abi.json''
       = Inr [(''constructor'', constructor_entry),
              (''increase_balance'', increase_balance_entry),
              (''get_balance'', get_balance_entry)]
   \<and> distinct (map fst [(''constructor'', constructor_entry),
              (''increase_balance'', increase_balance_entry),
              (''get_balance'', get_balance_entry)])"
proof -
  have l: "lacks_name nameless_entry"
    by (simp add: lacks_name_def example_entry_names)
  have ok: "readAbi example_env ''contract_abi.json''
       = Inr [(''constructor'', constructor_entry),
              (''increase_balance'', increase_balance_entry),
              (''get_balance'', get_balance_entry)]"
    by (simp add: readAbi_def example_files_simps example_entry_names)
  from readAbi_names [OF example_files_simps(3)] l
  have 1: "readAbi example_env ''broken_abi.json''
       = Inl (HardhatPluginError ''Abi entry has no name: [object Object]'')"
    by simp
  from readAbi_names [OF example_files_simps(1)] ok
  have 2: "distinct (map fst [(''constructor'', constructor_entry),
              (''increase_balance'', increase_balance_entry),
              (''get_balance'', get_balance_entry)])"
    by blast
  from l ok 1 2 example_files_simps show ?thesis by blast
qed

section \<open>Properties of the readers of the client's output\<close>

lemma js_lines_nonempty: "js_lines s \<noteq> []"
  by (cases s) (auto split: list.splits)

lemma hd_js_lines: "hd (js_lines s) = takeWhile (\<lambda>x. \<not> is_line_terminator x) s"
  using js_lines_nonempty by (induction s) (auto split: list.splits)

lemma tl_js_lines:
  "tl (js_lines (c # cs)) = (if is_line_terminator c then js_lines cs else tl (js_lines cs))"
  using js_lines_nonempty [of cs] by (auto split: list.splits)

lemma take_takeWhile_literal:
  assumes "\<forall>c\<in>set lit. \<not> P c"
  shows "take (length lit) (takeWhile (\<lambda>x. \<not> P x) s) = lit \<longleftrightarrow> take (length lit) s = lit"
  using assms
proof (induction lit arbitrary: s)
  case Nil
  then show ?case by simp
next
  case (Cons a lit)
  then show ?case by (cases s) auto
qed

lemma drop_takeWhile_literal:
  assumes "\<forall>c\<in>set lit. \<not> P c" "take (length lit) s = lit"
  shows "drop (length lit) (takeWhile (\<lambda>x. \<not> P x) s)
           = takeWhile (\<lambda>x. \<not> P x) (drop (length lit) s)"
  using assms
proof (induction lit arbitrary: s)
  case Nil
  then show ?case by simp
next
  case (Cons a lit)
  then show ?case by (cases s) auto
qed

lemma regex_match_lines:
  assumes "lit \<noteq> []" "\<forall>c\<in>set lit. \<not> is_line_terminator c"
  shows "regex_match lit True s
           = map_option (drop (length lit)) (find (starts_with lit) (js_lines s))
       \<and> regex_match lit False s
           = map_option (drop (length lit)) (find (starts_with lit) (tl (js_lines s)))"
proof (induction s)
  case Nil
  show ?case using assms(1) by (simp add: starts_with_def)
next
  case (Cons c cs)
  let ?nt = "\<lambda>x. \<not> is_line_terminator x"
  define h where "h = hd (js_lines (c # cs))"
  define t where "t = tl (js_lines (c # cs))"
  have t_eq: "t = (if is_line_terminator c then js_lines cs else tl (js_lines cs))"
    unfolding t_def by (rule tl_js_lines)
  have h_eq: "h = takeWhile ?nt (c # cs)"
    unfolding h_def by (rule hd_js_lines)
  have split: "js_lines (c # cs) = h # t"
    unfolding h_def t_def using js_lines_nonempty [of "c # cs"] by simp
  have rest: "regex_match lit (is_line_terminator c) cs
                = map_option (drop (length lit)) (find (starts_with lit) t)"
    using Cons.IH unfolding t_eq by simp
  have F: "regex_match lit False (c # cs)
           = map_option (drop (length lit)) (find (starts_with lit) (tl (js_lines (c # cs))))"
    using rest by (simp add: t_def)
  have T: "regex_match lit True (c # cs)
           = map_option (drop (length lit)) (find (starts_with lit) (js_lines (c # cs)))"
  proof (cases "take (length lit) (c # cs) = lit")
    case True
    then have st: "starts_with lit h"
      unfolding h_eq starts_with_def using take_takeWhile_literal [OF assms(2)] by blast
    have "find (starts_with lit) (h # t) = Some h"
      by (simp add: st)
    moreover have "drop (length lit) h = takeWhile ?nt (drop (length lit) (c # cs))"
      unfolding h_eq by (rule drop_takeWhile_literal [OF assms(2) True])
    ultimately show ?thesis unfolding split using True by simp
  next
    case False
    then have st: "\<not> starts_with lit h"
      unfolding h_eq starts_with_def using take_takeWhile_literal [OF assms(2)] by blast
    have "find (starts_with lit) (h # t) = find (starts_with lit) t"
      by (simp add: st)
    then show ?thesis unfolding split using False rest by simp
  qed
  from T F show ?case by blast
qed

lemma extractFromResponse_first_line:
  assumes "lit \<noteq> []" "\<forall>c\<in>set lit. \<not> is_line_terminator c"
  shows "extractFromResponse response lit =
     (case first_line lit response of
        None \<Rightarrow> Inl (HardhatPluginError could_not_parse)
      | Some l \<Rightarrow>
          if drop (length lit) l = [] then Inl (HardhatPluginError could_not_parse)
          else Inr (drop (length lit) l))"
  using regex_match_lines [OF assms, of response]
  by (simp add: extractFromResponse_def first_line_def split: option.splits)

lemma first_line_starts: "first_line lit s = Some l \<Longrightarrow> take (length lit) l = lit"
  by (auto simp: first_line_def find_Some_iff starts_with_def)

lemma extract_Inr_iff:
  assumes "lit \<noteq> []" "\<forall>c\<in>set lit. \<not> is_line_terminator c"
  shows "extractFromResponse response lit = Inr x
           \<longleftrightarrow> x \<noteq> [] \<and> first_line lit response = Some (lit @ x)"
proof (cases "first_line lit response")
  case None
  then show ?thesis by (simp add: extractFromResponse_first_line [OF assms])
next
  case (Some l)
  from first_line_starts [OF Some] have "l = lit @ drop (length lit) l"
    by (metis append_take_drop_id)
  then show ?thesis
    using Some by (auto simp: extractFromResponse_first_line [OF assms])
qed

lemma extract_cases:
  "(\<exists>x. extractFromResponse response lit = Inr x)
   \<or> extractFromResponse response lit = Inl (HardhatPluginError could_not_parse)"
  by (simp add: extractFromResponse_def split: option.splits)

lemma address_literal:
  "''Contract address: '' \<noteq> []" "\<forall>c\<in>set ''Contract address: ''. \<not> is_line_terminator c"
  by (simp_all add: is_line_terminator_def)

lemma hash_literal:
  "''Transaction hash: '' \<noteq> []" "\<forall>c\<in>set ''Transaction hash: ''. \<not> is_line_terminator c"
  by (simp_all add: is_line_terminator_def)

lemma extractAddress_iff:
  "extractAddress response = Inr x
     \<longleftrightarrow> x \<noteq> [] \<and> first_line ''Contract address: '' response = Some (''Contract address: '' @ x)"
  unfolding extractAddress_def by (rule extract_Inr_iff [OF address_literal])

lemma extractTxHash_iff:
  "extractTxHash response = Inr x
     \<longleftrightarrow> x \<noteq> [] \<and> first_line ''Transaction hash: '' response = Some (''Transaction hash: '' @ x)"
  unfolding extractTxHash_def by (rule extract_Inr_iff [OF hash_literal])

lemma deploy_after_submission:
  assumes "submitted_output E this constructorArguments signature calls = Some (response, calls1)"
  shows "deploy E n this constructorArguments signature calls =
     (case extractAddress response of
        Inl e \<Rightarrow> (Rejected e, calls1)
      | Inr address' \<Rightarrow>
          (case extractTxHash response of
             Inl e \<Rightarrow> (Rejected e, calls1)
           | Inr txHash \<Rightarrow>
               (case StarknetContract_new E
                       \<lparr>starknetWrapper = starknetWrapper this,
                        abiPath = abiPath this,
                        gatewayUrl = gatewayUrl this,
                        feederGatewayUrl = feederGatewayUrl this\<rparr> of
                  Inl e \<Rightarrow> (Rejected e, calls1)
                | Inr contract \<Rightarrow>
                    (new_Promise (contract\<lparr>address := Some address'\<rparr>)
                       (fst (run_timers E n (polling_arguments this txHash) calls1)),
                     snd (run_timers E n (polling_arguments this txHash) calls1)))))"
  using assms
  by (auto simp: submitted_output_def deploy_def polling_arguments_def
      split: sum.splits prod.splits if_splits)

text \<open>
  Claim C7, as stated, fails: \<^verbatim>\<open>match\<close> stops at the first line that starts with the
  marker, so a text with a later line \<^verbatim>\<open>Contract address: 0x1\<close> and a line
  \<^verbatim>\<open>Transaction hash: 0x2\<close>, both with non-empty captures, is still refused when an
  earlier line is \<^verbatim>\<open>Contract address: \<close> alone.
\<close>

theorem deploy_output_counterexample:
  "(\<exists>l\<in>set (js_lines two_address_lines). \<exists>c. c \<noteq> [] \<and> l = ''Contract address: '' @ c)
   \<and> (\<exists>l\<in>set (js_lines two_address_lines). \<exists>c. c \<noteq> [] \<and> l = ''Transaction hash: '' @ c)
   \<and> extractAddress two_address_lines = Inl (HardhatPluginError could_not_parse)
   \<and> deploy example_env 5 (example_factory ''plain_abi.json'' plain_abi None two_address_lines)
        JUndefined None []
      = (Rejected (HardhatPluginError could_not_parse), [deploy_command])"
proof -
  have l: "js_lines two_address_lines =
             [''Contract address: '', ''Contract address: 0x1'', ''Transaction hash: 0x2'', []]"
    by (simp add: two_address_lines_def is_line_terminator_def)
  have 1: "\<exists>l\<in>set (js_lines two_address_lines). \<exists>c. c \<noteq> [] \<and> l = ''Contract address: '' @ c"
    unfolding l by (rule bexI [of _ "''Contract address: 0x1''"]) simp_all
  have 2: "\<exists>l\<in>set (js_lines two_address_lines). \<exists>c. c \<noteq> [] \<and> l = ''Transaction hash: '' @ c"
    unfolding l by (rule bexI [of _ "''Transaction hash: 0x2''"]) simp_all
  have f: "first_line ''Contract address: '' two_address_lines = Some ''Contract address: ''"
    by (simp add: first_line_def l starts_with_def)
  have 3: "extractAddress two_address_lines = Inl (HardhatPluginError could_not_parse)"
    unfolding extractAddress_def
    by (simp add: extractFromResponse_first_line [OF address_literal] f)
  have s: "submitted_output example_env
             (example_factory ''plain_abi.json'' plain_abi None two_address_lines)
             JUndefined None [] = Some (two_address_lines, [deploy_command])"
    by (simp add: submitted_output_def handleConstructorArguments_def has_keys_def
        example_factory_def handleSignature_def runCommand_def example_wrapper_def
        example_env_def deploy_command_def answer_def)
  have 4: "deploy example_env 5 (example_factory ''plain_abi.json'' plain_abi None two_address_lines)
        JUndefined None []
      = (Rejected (HardhatPluginError could_not_parse), [deploy_command])"
    by (simp add: deploy_after_submission [OF s] 3)
  from 1 2 3 4 show ?thesis by blast
qed

text \<open>
  Claim C7, amended. The two extractions of \<^verbatim>\<open>deploy\<close> succeed, yielding the address
  and the transaction hash, exactly when the first line of the text that starts with
  \<^verbatim>\<open>Contract address: \<close> continues with the non-empty address and the first line that
  starts with \<^verbatim>\<open>Transaction hash: \<close> continues with the non-empty hash. When no line
  starts with one of the two markers, and whenever the two extractions do not both
  succeed, \<^verbatim>\<open>deploy\<close> is rejected with the error \<^verbatim>\<open>Could not parse response\<close>; when
  they succeed, \<^verbatim>\<open>deploy\<close> goes on with the contract at the captured address and polls
  the captured transaction hash.
\<close>

theorem deploy_output_parsing:
  "((extractAddress response = Inr address' \<and> extractTxHash response = Inr txHash) \<longleftrightarrow>
      (address' \<noteq> [] \<and> txHash \<noteq> []
       \<and> first_line ''Contract address: '' response = Some (''Contract address: '' @ address')
       \<and> first_line ''Transaction hash: '' response = Some (''Transaction hash: '' @ txHash)))
   \<and> (submitted_output E this constructorArguments signature calls = Some (response, calls1)
       \<and> (\<not> (\<exists>l\<in>set (js_lines response). starts_with ''Contract address: '' l)
            \<or> \<not> (\<exists>l\<in>set (js_lines response). starts_with ''Transaction hash: '' l))
       \<longrightarrow> deploy E n this constructorArguments signature calls
             = (Rejected (HardhatPluginError could_not_parse), calls1))
   \<and> (submitted_output E this constructorArguments signature calls = Some (response, calls1)
       \<and> \<not> (\<exists>a t. extractAddress response = Inr a \<and> extractTxHash response = Inr t)
       \<longrightarrow> deploy E n this constructorArguments signature calls
             = (Rejected (HardhatPluginError could_not_parse), calls1))
   \<and> (submitted_output E this constructorArguments signature calls = Some (response, calls1)
       \<and> extractAddress response = Inr address' \<and> extractTxHash response = Inr txHash
       \<and> StarknetContract_new E
            \<lparr>starknetWrapper = starknetWrapper this,
             abiPath = abiPath this,
             gatewayUrl = gatewayUrl this,
             feederGatewayUrl = feederGatewayUrl this\<rparr> = Inr contract
       \<longrightarrow> deploy E n this constructorArguments signature calls
             = (new_Promise (contract\<lparr>address := Some address'\<rparr>)
                  (fst (run_timers E n (polling_arguments this txHash) calls1)),
                snd (run_timers E n (polling_arguments this txHash) calls1)))"
proof (intro conjI impI)
  show "(extractAddress response = Inr address' \<and> extractTxHash response = Inr txHash) \<longleftrightarrow>
      (address' \<noteq> [] \<and> txHash \<noteq> []
       \<and> first_line ''Contract address: '' response = Some (''Contract address: '' @ address')
       \<and> first_line ''Transaction hash: '' response = Some (''Transaction hash: '' @ txHash))"
    unfolding extractAddress_iff extractTxHash_iff by blast
next
  assume h: "submitted_output E this constructorArguments signature calls = Some (response, calls1)
       \<and> \<not> (\<exists>a t. extractAddress response = Inr a \<and> extractTxHash response = Inr t)"
  then have s: "submitted_output E this constructorArguments signature calls
                  = Some (response, calls1)"
    by blast
  from h extract_cases [of response "''Contract address: ''"]
    extract_cases [of response "''Transaction hash: ''"]
  have "extractAddress response = Inl (HardhatPluginError could_not_parse)
        \<or> (\<exists>a. extractAddress response = Inr a)
            \<and> extractTxHash response = Inl (HardhatPluginError could_not_parse)"
    unfolding extractAddress_def extractTxHash_def by blast
  then show "deploy E n this constructorArguments signature calls
             = (Rejected (HardhatPluginError could_not_parse), calls1)"
    unfolding deploy_after_submission [OF s] by auto
next
  assume h: "submitted_output E this constructorArguments signature calls = Some (response, calls1)
       \<and> (\<not> (\<exists>l\<in>set (js_lines response). starts_with ''Contract address: '' l)
            \<or> \<not> (\<exists>l\<in>set (js_lines response). starts_with ''Transaction hash: '' l))"
  then have s: "submitted_output E this constructorArguments signature calls
                  = Some (response, calls1)"
    by blast
  from h have "first_line ''Contract address: '' response = None
               \<or> first_line ''Transaction hash: '' response = None"
    by (auto simp: first_line_def find_None_iff)
  then have "extractAddress response = Inl (HardhatPluginError could_not_parse)
        \<or> (\<exists>a. extractAddress response = Inr a)
            \<and> extractTxHash response = Inl (HardhatPluginError could_not_parse)"
    using extract_cases [of response "''Contract address: ''"]
    unfolding extractAddress_def extractTxHash_def
    by (auto simp: extractFromResponse_first_line [OF address_literal]
        extractFromResponse_first_line [OF hash_literal])
  then show "deploy E n this constructorArguments signature calls
             = (Rejected (HardhatPluginError could_not_parse), calls1)"
    unfolding deploy_after_submission [OF s] by auto
next
  assume h: "submitted_output E this constructorArguments signature calls = Some (response, calls1)
       \<and> extractAddress response = Inr address' \<and> extractTxHash response = Inr txHash
       \<and> StarknetContract_new E
            \<lparr>starknetWrapper = starknetWrapper this,
             abiPath = abiPath this,
             gatewayUrl = gatewayUrl this,
             feederGatewayUrl = feederGatewayUrl this\<rparr> = Inr contract"
  then have s: "submitted_output E this constructorArguments signature calls
                  = Some (response, calls1)"
    by blast
  from h show "deploy E n this constructorArguments signature calls
             = (new_Promise (contract\<lparr>address := Some address'\<rparr>)
                  (fst (run_timers E n (polling_arguments this txHash) calls1)),
                snd (run_timers E n (polling_arguments this txHash) calls1))"
    unfolding deploy_after_submission [OF s] by simp
qed

lemma example_submitted:
  "submitted_output example_env (example_factory path a None out) JUndefined None []
     = Some (out, [deploy_command])"
  by (simp add: submitted_output_def handleConstructorArguments_def has_keys_def
      example_factory_def handleSignature_def runCommand_def example_wrapper_def
      example_env_def deploy_command_def answer_def)

lemma js_lines_deploy_output:
  "js_lines deploy_output = [''Contract address: 0x1'', ''Transaction hash: 0x2'', []]"
  by (simp add: deploy_output_def is_line_terminator_def)

lemma example_new_contract:
  "StarknetContract_new example_env
     \<lparr>starknetWrapper = w, abiPath = ''plain_abi.json'', gatewayUrl = g, feederGatewayUrl = f\<rparr>
   = Inr \<lparr>starknetWrapper = w, abiPath = ''plain_abi.json'', gatewayUrl = g,
          feederGatewayUrl = f, abi = plain_abi, address = None\<rparr>"
  by (simp add: StarknetContract_new_def readAbi_def example_env_def example_files_def
      example_entry_names plain_abi_def)

lemma example_polling:
  "run_timers example_env n
     (polling_arguments (example_factory path a c out) ''0x2'') [deploy_command]
   = (CallResolve, [deploy_command, status_command])"
proof -
  let ?a = "polling_arguments (example_factory path a c out) ''0x2''"
  have cmd: "tx_status_command example_env (arg_txHash ?a) (arg_gatewayUrl ?a)
               (arg_feederGatewayUrl ?a) = status_command"
    by (simp add: tx_status_command_def polling_arguments_def example_factory_def
        example_env_def status_command_def)
  have w: "arg_starknetWrapper ?a ([deploy_command] @ [status_command])
             = Inr (answer (status_json ''ACCEPTED_ONCHAIN'' (quoted ''0x1'')))"
    by (simp add: polling_arguments_def example_factory_def example_wrapper_def
        status_command_def)
  have s: "statusCode (answer (status_json ''ACCEPTED_ONCHAIN'' (quoted ''0x1''))) = 0"
    by (simp add: answer_def)
  have p: "JSON_parse example_env (stdout (answer (status_json ''ACCEPTED_ONCHAIN'' (quoted ''0x1''))))
             = Some (JObj (status_object ''ACCEPTED_ONCHAIN'' (JStr ''0x1'')))"
    using example_parse_simps(1) by (simp add: answer_def)
  have "checkStatus example_env (arg_txHash ?a) (arg_starknetWrapper ?a) (arg_gatewayUrl ?a)
             (arg_feederGatewayUrl ?a) [deploy_command]
          = (Inr (JObj (status_object ''ACCEPTED_ONCHAIN'' (JStr ''0x1''))),
             [deploy_command] @ [status_command])"
    using checkStatus_answer [of "arg_starknetWrapper ?a" "[deploy_command]" example_env
        "arg_txHash ?a" "arg_gatewayUrl ?a" "arg_feederGatewayUrl ?a", OF _ s p] w
    unfolding cmd by simp
  from iterativelyCheckStatus_JObj [OF this]
  have "iterativelyCheckStatus example_env ?a [deploy_command]
          = (CallResolve, [deploy_command, status_command])"
    by (simp add: status_object_def field_def)
  then show ?thesis
    by (rule run_timers_ended) simp
qed

theorem deploy_output_parsing_witness:
  "first_line ''Contract address: '' deploy_output = Some (''Contract address: '' @ ''0x1'')
   \<and> first_line ''Transaction hash: '' deploy_output = Some (''Transaction hash: '' @ ''0x2'')
   \<and> extractAddress deploy_output = Inr ''0x1''
   \<and> extractTxHash deploy_output = Inr ''0x2''
   \<and> submitted_output example_env (example_factory ''plain_abi.json'' plain_abi None deploy_output)
        JUndefined None [] = Some (deploy_output, [deploy_command])
   \<and> deploy example_env 5 (example_factory ''plain_abi.json'' plain_abi None deploy_output)
        JUndefined None []
      = (Fulfilled
           \<lparr>starknetWrapper =
              example_wrapper (answer (status_json ''ACCEPTED_ONCHAIN'' (quoted ''0x1'')))
                deploy_output,
            abiPath = ''plain_abi.json'',
            gatewayUrl = ''http://localhost:5000'',
            feederGatewayUrl = ''http://localhost:5000'',
            abi = plain_abi,
            address = Some ''0x1''\<rparr>,
         [deploy_command, status_command])
   \<and> submitted_output example_env
        (example_factory ''plain_abi.json'' plain_abi None ''Contract address: 0x1'')
        JUndefined None [] = Some (''Contract address: 0x1'', [deploy_command])
   \<and> \<not> (\<exists>l\<in>set (js_lines ''Contract address: 0x1''). starts_with ''Transaction hash: '' l)
   \<and> deploy example_env 5
        (example_factory ''plain_abi.json'' plain_abi None ''Contract address: 0x1'')
        JUndefined None []
      = (Rejected (HardhatPluginError could_not_parse), [deploy_command])"
proof -
  let ?F = "example_factory ''plain_abi.json'' plain_abi None deploy_output"
  let ?G = "example_factory ''plain_abi.json'' plain_abi None ''Contract address: 0x1''"
  have a: "first_line ''Contract address: '' deploy_output
             = Some (''Contract address: '' @ ''0x1'')"
    by (simp add: first_line_def js_lines_deploy_output starts_with_def)
  have t: "first_line ''Transaction hash: '' deploy_output
             = Some (''Transaction hash: '' @ ''0x2'')"
    by (simp add: first_line_def js_lines_deploy_output starts_with_def)
  have ne: "''0x1'' \<noteq> []" "''0x2'' \<noteq> []"
    by simp_all
  note inst = deploy_output_parsing [of deploy_output "''0x1''" "''0x2''" example_env ?F
      JUndefined None "[]" "[deploy_command]" 5]
  from inst a t ne have x: "extractAddress deploy_output = Inr ''0x1''"
    "extractTxHash deploy_output = Inr ''0x2''"
    by blast+
  have c: "StarknetContract_new example_env
            \<lparr>starknetWrapper = starknetWrapper ?F,
             abiPath = abiPath ?F,
             gatewayUrl = gatewayUrl ?F,
             feederGatewayUrl = feederGatewayUrl ?F\<rparr>
          = Inr \<lparr>starknetWrapper = starknetWrapper ?F, abiPath = ''plain_abi.json'',
                 gatewayUrl = gatewayUrl ?F, feederGatewayUrl = feederGatewayUrl ?F,
                 abi = plain_abi, address = None\<rparr>"
    using example_new_contract [of "starknetWrapper ?F" "gatewayUrl ?F" "feederGatewayUrl ?F"]
    by (simp add: example_factory_def)
  from inst x c example_submitted [of "''plain_abi.json''" plain_abi deploy_output]
  have d: "deploy example_env 5 ?F JUndefined None []
      = (new_Promise
           (\<lparr>starknetWrapper = starknetWrapper ?F, abiPath = ''plain_abi.json'',
             gatewayUrl = gatewayUrl ?F, feederGatewayUrl = feederGatewayUrl ?F,
             abi = plain_abi, address = None\<rparr>\<lparr>address := Some ''0x1''\<rparr>)
           (fst (run_timers example_env 5 (polling_arguments ?F ''0x2'') [deploy_command])),
         snd (run_timers example_env 5 (polling_arguments ?F ''0x2'') [deploy_command]))"
    by blast
  have l: "js_lines ''Contract address: 0x1'' = [''Contract address: 0x1'']"
    by (simp add: is_line_terminator_def)
  have n: "\<not> (\<exists>l\<in>set (js_lines ''Contract address: 0x1''). starts_with ''Transaction hash: '' l)"
    by (simp add: l starts_with_def)
  from deploy_output_parsing [of "''Contract address: 0x1''" "[]" "[]" example_env ?G
      JUndefined None "[]" "[deploy_command]" 5]
    n example_submitted [of "''plain_abi.json''" plain_abi "''Contract address: 0x1''"]
  have r: "deploy example_env 5 ?G JUndefined None []
      = (Rejected (HardhatPluginError could_not_parse), [deploy_command])"
    by blast
  have sel: "starknetWrapper ?F =
               example_wrapper (answer (status_json ''ACCEPTED_ONCHAIN'' (quoted ''0x1'')))
                 deploy_output"
    "gatewayUrl ?F = ''http://localhost:5000''" "feederGatewayUrl ?F = ''http://localhost:5000''"
    by (simp_all add: example_factory_def)
  have d': "deploy example_env 5 ?F JUndefined None []
      = (Fulfilled
           \<lparr>starknetWrapper =
              example_wrapper (answer (status_json ''ACCEPTED_ONCHAIN'' (quoted ''0x1'')))
                deploy_output,
            abiPath = ''plain_abi.json'',
            gatewayUrl = ''http://localhost:5000'',
            feederGatewayUrl = ''http://localhost:5000'',
            abi = plain_abi,
            address = Some ''0x1''\<rparr>,
         [deploy_command, status_command])"
    unfolding d example_polling sel by simp
  from a t x example_submitted [of "''plain_abi.json''" plain_abi deploy_output]
    example_submitted [of "''plain_abi.json''" plain_abi "''Contract address: 0x1''"] n r d'
  show ?thesis by blast
qed

section \<open>Where the code departs from the specification\<close>

lemma run_timers_throw:
  assumes "observed E a calls = Inl e"
  shows "run_timers E n a calls = (Throw e, calls @ [poll_command E a])"
  by (rule run_timers_ended [OF step_throw [OF assms]]) simp

lemma query_failure_never_settles:
  assumes "observed E a calls = Inl e"
  shows "new_Promise v (fst (run_timers E n a calls)) = Pending"
  by (simp add: run_timers_throw [OF assms])

lemma observed_exit:
  assumes "arg_starknetWrapper a (calls @ [poll_command E a]) = Inr r" "statusCode r \<noteq> 0"
  shows "observed E a calls = Inl (HardhatPluginError (stderr r))"
  using checkStatus_exit [of "arg_starknetWrapper a" calls E "arg_txHash a" "arg_gatewayUrl a"
      "arg_feederGatewayUrl a" r] assms
  by (simp add: observed_def poll_command_def)

lemma observed_unparsable:
  assumes "arg_starknetWrapper a (calls @ [poll_command E a]) = Inr r" "statusCode r = 0"
    "JSON_parse E (stdout r) = None"
  shows "observed E a calls
           = Inl (HardhatPluginError (''Cannot interpret the following: '' @ stdout r))"
  using checkStatus_unparsable [of "arg_starknetWrapper a" calls E "arg_txHash a"
      "arg_gatewayUrl a" "arg_feederGatewayUrl a" r] assms
  by (simp add: observed_def poll_command_def)

lemma invoke_polls:
  assumes "invokeOrCall E this Invoke functionName args signature calls = (Inr executed, calls1)"
    "extractTxHash (stdout executed) = Inr txHash"
  shows "invoke E n this functionName args signature calls =
           (new_Promise () (fst (run_timers E n (polling_arguments this txHash) calls1)),
            snd (run_timers E n (polling_arguments this txHash) calls1))"
  using assms by (simp add: invoke_def polling_arguments_def split: prod.splits)

lemma example_invoke_submitted:
  "invokeOrCall example_env (example_contract r (Some ''0x1'')) Invoke ''increase_balance''
     (JObj [(''amount'', JBigInt 10)]) None []
   = (Inr (answer deploy_output), [invoke_command])"
proof -
  have k: "has_keys (JObj [(''amount'', JBigInt 10)]) = Inr True"
    by (simp add: has_keys_def)
  have n: "Numeric_toString 10 = ''10''"
    by code_simp
  have e: "adaptInput example_env (Some ''increase_balance'') (JObj [(''amount'', JBigInt 10)])
             (inputs increase_balance_entry) (abi (example_contract r (Some ''0x1'')))
           = Inr [''10'']"
    by (simp add: example_env_def example_adaptInput_def increase_balance_entry_def field_def n)
  have u: "adaptUrl example_env url = url" for url
    by (simp add: example_env_def)
  show ?thesis
    by (simp add: invokeOrCall_def example_contract_simps k e u runCommand_def
        example_wrapper_def invoke_command_def answer_def)
qed

lemma example_invoke_hash: "extractTxHash (stdout (answer deploy_output)) = Inr ''0x2''"
proof -
  have "first_line ''Transaction hash: '' deploy_output
          = Some (''Transaction hash: '' @ ''0x2'')"
    by (simp add: first_line_def js_lines_deploy_output starts_with_def)
  then have "extractTxHash deploy_output = Inr ''0x2''"
    unfolding extractTxHash_iff by simp
  then show ?thesis by (simp add: answer_def)
qed

lemma example_contract_polling:
  "polling_arguments (example_contract r ad) ''0x2'' = example_arguments r"
  by (simp add: polling_arguments_def example_contract_def example_arguments_def)

lemma example_poll_command: "poll_command example_env (example_arguments r) = status_command"
  by (simp add: poll_command_def tx_status_command_def example_arguments_def example_env_def
      status_command_def)

lemma example_wrapper_status:
  "arg_starknetWrapper (example_arguments r) (calls @ [status_command]) = Inr r"
  by (simp add: example_arguments_def example_wrapper_def status_command_def)

text \<open>
  Claim C3 does not hold of the code. A status query that ends with a non-zero exit
  status, or whose output is not JSON, makes \<^verbatim>\<open>checkStatus\<close> throw inside the async
  function \<^verbatim>\<open>iterativelyCheckStatus\<close>. The promise of that call is dropped by the
  executor of the caller's promise, so \<^verbatim>\<open>reject\<close> is never called: after any number of
  timers the promise returned by \<^verbatim>\<open>invoke\<close> is still pending, and no further query is
  made. The theorem evaluates \<^verbatim>\<open>invoke\<close> with a client whose status query is refused,
  and with one whose status query prints HTML.
\<close>

theorem failed_status_query_leaves_wait_pending:
  "(\<forall>n. fst (run_timers example_env n (example_arguments refused) [])
          = Throw (HardhatPluginError ''Connection refused''))
   \<and> (\<forall>n. invoke example_env n (example_contract refused (Some ''0x1'')) ''increase_balance''
             (JObj [(''amount'', JBigInt 10)]) None []
          = (Pending, [invoke_command, status_command]))
   \<and> (\<forall>n. fst (run_timers example_env n (example_arguments (answer ''<html>'')) [])
          = Throw (HardhatPluginError ''Cannot interpret the following: <html>''))
   \<and> (\<forall>n. invoke example_env n (example_contract (answer ''<html>'') (Some ''0x1''))
             ''increase_balance'' (JObj [(''amount'', JBigInt 10)]) None []
          = (Pending, [invoke_command, status_command]))"
proof -
  have o1: "observed example_env (example_arguments refused) calls
              = Inl (HardhatPluginError ''Connection refused'')" for calls
    using observed_exit [of "example_arguments refused" calls example_env refused]
    by (simp add: example_poll_command example_wrapper_status refused_def)
  have p: "JSON_parse example_env ''<html>'' = None"
    by (simp add: example_env_def example_parse_def status_json_def quoted_def)
  have o2: "observed example_env (example_arguments (answer ''<html>'')) calls
              = Inl (HardhatPluginError ''Cannot interpret the following: <html>'')" for calls
    using observed_unparsable [of "example_arguments (answer ''<html>'')" calls example_env
        "answer ''<html>''"] p
    by (simp add: example_poll_command example_wrapper_status answer_def)
  have i: "invoke example_env n (example_contract r (Some ''0x1'')) ''increase_balance''
             (JObj [(''amount'', JBigInt 10)]) None []
           = (new_Promise () (fst (run_timers example_env n (example_arguments r) [invoke_command])),
              snd (run_timers example_env n (example_arguments r) [invoke_command]))" for n r
    using invoke_polls [OF example_invoke_submitted example_invoke_hash]
    by (simp add: example_contract_polling)
  show ?thesis
    by (simp add: i run_timers_throw [OF o1] run_timers_throw [OF o2] example_poll_command)
qed

lemma example_bare_factory:
  "StarknetContractFactory_new example_env (example_config ''bare_abi.json'' out)
     = Inr (example_factory ''bare_abi.json'' bare_abi (Some bare_constructor_entry) out)"
  by (simp add: StarknetContractFactory_new_def readAbi_def example_files_simps
      example_entry_names example_config_def example_factory_def bare_abi_def
      find_constructor_def bare_constructor_entry_def get_balance_entry_def)

text \<open>
  Claim C2 does not hold of the code. \<^verbatim>\<open>handleConstructorArguments\<close> asks whether the
  ABI has a constructor entry, not whether that entry declares inputs. For a contract
  whose constructor takes no argument, \<^verbatim>\<open>deploy()\<close> is rejected with
  \<^verbatim>\<open>Constructor arguments required but not provided.\<close> although the formal parameter list
  is empty, and nothing is submitted; with a non-empty argument object the arguments go
  to the encoder instead of raising \<^verbatim>\<open>Constructor arguments provided but not required.\<close>
\<close>

theorem bare_constructor_requires_arguments:
  "StarknetContractFactory_new example_env (example_config ''bare_abi.json'' deploy_output)
     = Inr (example_factory ''bare_abi.json'' bare_abi (Some bare_constructor_entry) deploy_output)
   \<and> inputs bare_constructor_entry = []
   \<and> (\<forall>n. deploy example_env n
             (example_factory ''bare_abi.json'' bare_abi (Some bare_constructor_entry) deploy_output)
             JUndefined None []
          = (Rejected (HardhatPluginError ''Constructor arguments required but not provided.''),
             []))
   \<and> (\<forall>E starknetArgs. handleConstructorArguments E
             (example_factory ''bare_abi.json'' bare_abi (Some bare_constructor_entry) deploy_output)
             (JObj [(''x'', JBigInt 1)]) starknetArgs
          = (case adaptInput E (Some ''constructor'') (JObj [(''x'', JBigInt 1)]) [] bare_abi of
               Inl e \<Rightarrow> Inl e
             | Inr construtorArguments \<Rightarrow>
                 Inr (starknetArgs @ [''--inputs''] @ construtorArguments)))"
proof -
  let ?F = "example_factory ''bare_abi.json'' bare_abi (Some bare_constructor_entry) deploy_output"
  have c: "constructorAbi ?F = Some bare_constructor_entry" "factory_abi ?F = bare_abi"
    by (simp_all add: example_factory_def)
  have b: "inputs bare_constructor_entry = []" "name bare_constructor_entry = Some ''constructor''"
    by (simp_all add: bare_constructor_entry_def)
  have m: "handleConstructorArguments example_env ?F JUndefined starknetArgs
             = Inl (HardhatPluginError ''Constructor arguments required but not provided.'')"
    for starknetArgs
    by (simp add: handleConstructorArguments_def has_keys_def c)
  have d: "deploy example_env n ?F JUndefined None []
          = (Rejected (HardhatPluginError ''Constructor arguments required but not provided.''),
             [])" for n
    by (simp add: deploy_def m)
  have k: "has_keys (JObj [(''x'', JBigInt 1)]) = Inr True"
    by (simp add: has_keys_def)
  have h: "handleConstructorArguments E ?F (JObj [(''x'', JBigInt 1)]) starknetArgs
          = (case adaptInput E (Some ''constructor'') (JObj [(''x'', JBigInt 1)]) [] bare_abi of
               Inl e \<Rightarrow> Inl e
             | Inr construtorArguments \<Rightarrow>
                 Inr (starknetArgs @ [''--inputs''] @ construtorArguments))" for E starknetArgs
    by (simp add: handleConstructorArguments_def k c b split: sum.splits)
  from example_bare_factory [of deploy_output] b(1) d h show ?thesis by blast
qed

lemma has_keys_total: "\<exists>b. has_keys v = Inr b"
  by (cases v) (auto simp: has_keys_def)

text \<open>
  What the code does instead, for an encoder that throws neither of the two errors: the
  missing-arguments error is thrown exactly when the ABI has a constructor entry and the
  arguments are absent or empty, and the unexpected-arguments error exactly when the ABI
  has no constructor entry and the arguments are not empty.
\<close>

lemma constructor_argument_errors:
  assumes "\<And>n v i a. adaptInput E n v i a \<noteq> Inl missing_constructor_arguments"
    "\<And>n v i a. adaptInput E n v i a \<noteq> Inl unexpected_constructor_arguments"
  shows "handleConstructorArguments E this constructorArguments starknetArgs
           = Inl missing_constructor_arguments
         \<longleftrightarrow> constructorAbi this \<noteq> None \<and> has_keys constructorArguments = Inr False"
    and "handleConstructorArguments E this constructorArguments starknetArgs
           = Inl unexpected_constructor_arguments
         \<longleftrightarrow> constructorAbi this = None \<and> has_keys constructorArguments = Inr True"
proof -
  obtain b where b: "has_keys constructorArguments = Inr b"
    using has_keys_total by blast
  have d: "missing_constructor_arguments \<noteq> unexpected_constructor_arguments"
    by (simp add: missing_constructor_arguments_def unexpected_constructor_arguments_def)
  show "handleConstructorArguments E this constructorArguments starknetArgs
           = Inl missing_constructor_arguments
         \<longleftrightarrow> constructorAbi this \<noteq> None \<and> has_keys constructorArguments = Inr False"
    using assms(1) d
    by (auto simp: handleConstructorArguments_def b missing_constructor_arguments_def
        unexpected_constructor_arguments_def split: option.splits sum.splits)
  show "handleConstructorArguments E this constructorArguments starknetArgs
           = Inl unexpected_constructor_arguments
         \<longleftrightarrow> constructorAbi this = None \<and> has_keys constructorArguments = Inr True"
    using assms(2) d
    by (auto simp: handleConstructorArguments_def b missing_constructor_arguments_def
        unexpected_constructor_arguments_def split: option.splits sum.splits)
qed

end
